theory Spec2Isabelle
  imports Main
begin

section \<open>Go values used by internal/api/requests.go\<close>

text \<open>
  A Go \<^verbatim>\<open>error\<close> is its message (what \<^verbatim>\<open>Error()\<close> returns) and, when it was
  built by \<^verbatim>\<open>fmt.Errorf\<close> with a \<^verbatim>\<open>%w\<close> verb, the error it wraps.
\<close>

datatype go_error = GoError (message: string) (unwrap: "go_error option")

text \<open>\<^verbatim>\<open>fmt.Errorf(m)\<close> without a wrapping verb.\<close>

definition errorf :: "string \<Rightarrow> go_error" where
  "errorf m = GoError m None"

text \<open>
  \<^verbatim>\<open>fmt.Errorf(prefix + "%w", err)\<close>: every wrapping call of the file has \<^verbatim>\<open>%w\<close> as
  its last verb, so the message is the formatted prefix followed by the message of \<open>err\<close>.
\<close>

definition errorf_w :: "string \<Rightarrow> go_error \<Rightarrow> go_error" where
  "errorf_w prefix err = GoError (prefix @ message err) (Some err)"

subsection \<open>The verb \<^verbatim>\<open>%d\<close>\<close>

definition digit_char :: "nat \<Rightarrow> char" where
  "digit_char d = ''0123456789'' ! (d mod 10)"

fun dec_nat :: "nat \<Rightarrow> string" where
  "dec_nat n = (if n < 10 then [digit_char n] else dec_nat (n div 10) @ [digit_char (n mod 10)])"

declare dec_nat.simps [simp del]

text \<open>
  \<^verbatim>\<open>%d\<close> of a Go \<^verbatim>\<open>int\<close>: a minus sign for a negative value, then the decimal digits.
  The file does no arithmetic on \<^verbatim>\<open>id\<close>, so the integer is modelled unbounded
  (the variable is written \<open>id'\<close> here, \<open>id\<close> being the identity function of HOL).
\<close>

definition fmt_d :: "int \<Rightarrow> string" where
  "fmt_d i = (if i < 0 then CHR ''-'' # dec_nat (nat (- i)) else dec_nat (nat i))"

text \<open>
  Reading a decimal rendering back, to state that \<open>fmt_d\<close> renders its argument and
  nothing else: the value of a digit string, and of a digit string with an optional sign.
\<close>

definition digit_val :: "char \<Rightarrow> nat" where
  "digit_val c = of_char c - 48"

definition dec_value :: "string \<Rightarrow> nat" where
  "dec_value s = foldl (\<lambda>a c. 10 * a + digit_val c) 0 s"

definition parse_d :: "string \<Rightarrow> int" where
  "parse_d s =
     (if s \<noteq> [] \<and> hd s = CHR ''-'' then - int (dec_value (tl s)) else int (dec_value s))"

subsection \<open>Request context and response envelope\<close>

text \<open>
  Modelled from the spec: the type declarations \<^verbatim>\<open>RequestData\<close> and \<^verbatim>\<open>ResponseData\<close>
  are not in this file. The records have the fields the file reads
  (\<^verbatim>\<open>requestData.Indexer\<close>, \<^verbatim>\<open>responseData.Status\<close>, \<^verbatim>\<open>.Error\<close>,
  \<^verbatim>\<open>.Response.Torrent\<close>, \<^verbatim>\<open>.ReleaseName\<close>, \<^verbatim>\<open>.Username\<close>); the credential reference
  of the request context is opaque. \<^verbatim>\<open>Response.Torrent\<close> is a pointer the file compares
  with \<^verbatim>\<open>nil\<close>, hence an option. \<^verbatim>\<open>requestData\<close> itself is taken to be a non-nil pointer.
\<close>

record RequestData =
  Indexer :: string
  CredentialRef :: string

record Torrent =
  ReleaseName :: string
  Username :: string

record Response =
  Torrent :: "Torrent option"

record ResponseData =
  Status :: string
  Error :: string
  Response :: Response

subsection \<open>HTTP and logging\<close>

record http_request =
  Method :: string
  URL :: string
  Authorization :: string

text \<open>
  A response: the status code and the \<^verbatim>\<open>Location\<close> header (empty when absent), which
  the client reads and the file never does, and what \<^verbatim>\<open>io.ReadAll(resp.Body)\<close> gives,
  the bytes of the body or a read error.
\<close>

record http_response =
  StatusCode :: int
  Location :: string
  Body :: "go_error + string"

datatype log_level = DebugLevel | WarnLevel | ErrorLevel

text \<open>
  An event of the global zerolog logger: level, the \<^verbatim>\<open>Err\<close> field when one is
  attached, and the message.
\<close>

datatype log_event = LogEvent log_level "string option" string

text \<open>
  The dynamic type behind the \<^verbatim>\<open>target interface{}\<close> argument of \<^verbatim>\<open>makeRequest\<close>:
  a \<^verbatim>\<open>*ResponseData\<close> (the only one this file passes) or anything else.
\<close>

datatype target = ResponseDataPtr | OtherPtr

section \<open>Collaborators and state\<close>

text \<open>
  Everything the file calls but does not define is a parameter: the limiter registry
  (\<^verbatim>\<open>getLimiter\<close>, giving the address of the indexer's shared limiter or \<^verbatim>\<open>nil\<close>),
  \<^verbatim>\<open>rate.Limiter.Allow\<close> on a limiter state \<open>'l\<close>, the credential provider, the cache
  store on a store state \<open>'c\<close> with the two signatures the file calls
  (\<^verbatim>\<open>checkCache(cacheKey, indexer)\<close>, \<^verbatim>\<open>cacheResponseData(cacheKey, responseData)\<close>),
  \<^verbatim>\<open>http.NewRequest\<close> (only whether it rejects the URL), the transport under
  \<^verbatim>\<open>http.DefaultClient\<close> (one exchange with the remote side, which sees the requests sent
  so far and the request; a timeout after ten seconds is one of its errors), what the
  client needs to follow a redirect (resolving a \<^verbatim>\<open>Location\<close> against the URL of the
  request, the \<^verbatim>\<open>Authorization\<close> header it gives the next request, which it drops when
  the redirect leaves the domain, and the \<^verbatim>\<open>*url.Error\<close> it wraps a failure in),
  \<^verbatim>\<open>json.Unmarshal\<close> into the fresh \<^verbatim>\<open>&ResponseData{}\<close>
  and into any other target, and \<^verbatim>\<open>html.UnescapeString\<close>. Each is taken by its
  interface: the registry, the credential provider and the cache lookup are reads, the
  cache population changes the store alone, and time (token refill, entry expiry) is not
  part of the state.
\<close>

record ('c, 'l) env =
  getLimiter :: "string \<Rightarrow> nat option"
  limiter_Allow :: "'l \<Rightarrow> bool \<times> 'l"
  getAPIKey :: "RequestData \<Rightarrow> go_error + string"
  checkCache :: "string \<Rightarrow> string \<Rightarrow> 'c \<Rightarrow> ResponseData option"
  cacheResponseData :: "string \<Rightarrow> ResponseData \<Rightarrow> 'c \<Rightarrow> 'c"
  http_NewRequest_err :: "string \<Rightarrow> go_error option"
  http_RoundTrip :: "http_request list \<Rightarrow> http_request \<Rightarrow> go_error + http_response"
  url_Resolve :: "string \<Rightarrow> string \<Rightarrow> go_error + string"
  redirect_Authorization :: "http_request \<Rightarrow> http_request list \<Rightarrow> string \<Rightarrow> string"
  url_Error :: "string \<Rightarrow> go_error \<Rightarrow> go_error"
  json_Unmarshal :: "string \<Rightarrow> go_error + ResponseData"
  json_Unmarshal_other :: "string \<Rightarrow> go_error option"
  html_UnescapeString :: "string \<Rightarrow> string"

text \<open>
  The state the file acts on: the cache store, the limiters by address, the HTTP
  requests sent so far (every request that went to the transport, redirects included),
  the log, and counters of credential lookups and of \<^verbatim>\<open>Allow\<close> queries.
\<close>

record ('c, 'l) world =
  cache :: 'c
  limiters :: "nat \<Rightarrow> 'l"
  http_calls :: "http_request list"
  log_events :: "log_event list"
  key_lookups :: nat
  limiter_queries :: nat

definition emit :: "log_level \<Rightarrow> string option \<Rightarrow> string \<Rightarrow> ('c, 'l) world \<Rightarrow> ('c, 'l) world" where
  "emit lvl e m w = w\<lparr>log_events := log_events w @ [LogEvent lvl e m]\<rparr>"

section \<open>The functions of requests.go\<close>

subsection \<open>determineAPIBase\<close>

text \<open>
  The two constants \<^verbatim>\<open>APIEndpointBaseRedacted\<close> and \<^verbatim>\<open>APIEndpointBaseOrpheus\<close> are
  declared elsewhere and are parameters here. The function takes no state and
  returns none.
\<close>

definition determineAPIBase :: "string \<Rightarrow> string \<Rightarrow> string \<Rightarrow> go_error + string" where
  "determineAPIBase APIEndpointBaseRedacted APIEndpointBaseOrpheus indexer =
     (if indexer = ''redacted'' then Inr APIEndpointBaseRedacted
      else if indexer = ''ops'' then Inr APIEndpointBaseOrpheus
      else Inl (errorf ''invalid path''))"

subsection \<open>http.DefaultClient.Do\<close>

text \<open>
  The file calls \<^verbatim>\<open>http.DefaultClient.Do(req)\<close>; the default client has no
  \<^verbatim>\<open>CheckRedirect\<close> of its own, so it follows redirects the way net/http does. It sends
  the request; a response with status 301, 302, 303, 307 or 308 and a \<^verbatim>\<open>Location\<close> header
  is not handed back: its body is dropped and a request with the same method goes to the
  resolved location, unless ten requests have been sent already, which is the error
  \<open>stopped after 10 redirects\<close>. Every other response is handed back as it is. A failure
  of the transport, of resolving the location or of the redirect limit comes back as a
  \<^verbatim>\<open>*url.Error\<close>. \<open>hops\<close> counts the redirects that may still be followed, \<open>ireq\<close> is
  the request \<open>Do\<close> was called with, \<open>via\<close> the requests of this call sent before \<open>req\<close>,
  and \<open>sent\<close> every request sent so far; the result carries the requests sent.
\<close>

definition shouldRedirect :: "int \<Rightarrow> bool" where
  "shouldRedirect code =
     (code = 301 \<or> code = 302 \<or> code = 303 \<or> code = 307 \<or> code = 308)"

fun client_follow ::
  "('c, 'l) env \<Rightarrow> nat \<Rightarrow> http_request \<Rightarrow> http_request list \<Rightarrow> http_request
     \<Rightarrow> http_request list \<Rightarrow> (go_error + http_response) \<times> http_request list" where
  "client_follow E hops ireq via req sent =
     (case http_RoundTrip E sent req of
        Inl err \<Rightarrow> (Inl (url_Error E (URL req) err), sent @ [req])
      | Inr resp \<Rightarrow>
          if \<not> shouldRedirect (StatusCode resp) \<or> Location resp = [] then
            (Inr resp, sent @ [req])
          else
            (case url_Resolve E (URL req) (Location resp) of
               Inl err \<Rightarrow> (Inl (url_Error E (URL req) err), sent @ [req])
             | Inr u \<Rightarrow>
                 (case hops of
                    0 \<Rightarrow>
                      (Inl (url_Error E (URL req) (errorf ''stopped after 10 redirects'')),
                       sent @ [req])
                  | Suc n \<Rightarrow>
                      client_follow E n ireq (via @ [req])
                        \<lparr>Method = Method req, URL = u,
                         Authorization = redirect_Authorization E ireq (via @ [req]) u\<rparr>
                        (sent @ [req]))))"

declare client_follow.simps [simp del]

definition client_Do ::
  "('c, 'l) env \<Rightarrow> http_request \<Rightarrow> http_request list
     \<Rightarrow> (go_error + http_response) \<times> http_request list" where
  "client_Do E req sent = client_follow E 9 req [] req sent"

subsection \<open>makeRequest\<close>

text \<open>
  The result is the returned error, or \<open>Inr r\<close> when \<^verbatim>\<open>nil\<close> is returned, \<open>r\<close> being what
  the target then points to (which is a \<^verbatim>\<open>ResponseData\<close> whenever \<^verbatim>\<open>nil\<close> is returned).
  \<open>limiter\<close> is the address of a limiter, not \<^verbatim>\<open>nil\<close>.
\<close>

definition makeRequest ::
  "('c, 'l) env \<Rightarrow> string \<Rightarrow> string \<Rightarrow> nat \<Rightarrow> string \<Rightarrow> target \<Rightarrow> ('c, 'l) world
     \<Rightarrow> (go_error + ResponseData) \<times> ('c, 'l) world" where
  "makeRequest E endpoint apiKey limiter indexer tgt w =
     (let (allowed, l') = limiter_Allow E (limiters w limiter);
          w1 = w\<lparr>limiters := (limiters w)(limiter := l'),
                 limiter_queries := Suc (limiter_queries w)\<rparr>
      in if \<not> allowed then
           (Inl (errorf ''too many requests''),
            emit WarnLevel None (indexer @ '': Too many requests'') w1)
         else
           (case http_NewRequest_err E endpoint of
              Some err \<Rightarrow>
                (let wrappedErr = errorf_w (''error making HTTP request to '' @ endpoint @ '': '') err
                 in (Inl wrappedErr,
                     emit ErrorLevel (Some (message wrappedErr)) ''fetchAPI error'' w1))
            | None \<Rightarrow>
                (let req = \<lparr>Method = ''GET'', URL = endpoint, Authorization = apiKey\<rparr>;
                     (done, sent) = client_Do E req (http_calls w1);
                     w2 = w1\<lparr>http_calls := sent\<rparr>
                 in case done of
                      Inl err \<Rightarrow>
                        (Inl err, emit ErrorLevel None (''fetchAPI error: '' @ message err) w2)
                    | Inr resp \<Rightarrow>
                        (case Body resp of
                           Inl err \<Rightarrow>
                             (Inl err, emit ErrorLevel None (''fetchAPI error: '' @ message err) w2)
                         | Inr respBody \<Rightarrow>
                             (case tgt of
                                OtherPtr \<Rightarrow>
                                  (case json_Unmarshal_other E respBody of
                                     Some err \<Rightarrow>
                                       (Inl err,
                                        emit ErrorLevel None (''fetchAPI error: '' @ message err) w2)
                                   | None \<Rightarrow>
                                       (Inl (errorf ''invalid target type''),
                                        emit ErrorLevel None
                                          ''Invalid target type for JSON unmarshalling'' w2))
                              | ResponseDataPtr \<Rightarrow>
                                  (case json_Unmarshal E respBody of
                                     Inl err \<Rightarrow>
                                       (Inl err,
                                        emit ErrorLevel None (''fetchAPI error: '' @ message err) w2)
                                   | Inr responseData \<Rightarrow>
                                       if Status responseData \<noteq> ''success'' then
                                         (Inl (errorf (''API error from '' @ indexer @ '': ''
                                                        @ Error responseData)),
                                          emit WarnLevel None
                                            (''API error from '' @ indexer @ '': ''
                                              @ Error responseData) w2)
                                       else (Inr responseData, w2)))))))"

subsection \<open>initiateAPIRequest\<close>

definition endpoint_of :: "string \<Rightarrow> string \<Rightarrow> int \<Rightarrow> string" where
  "endpoint_of apiBase action id' = apiBase @ ''?action='' @ action @ ''&id='' @ fmt_d id'"

definition initiateAPIRequest ::
  "('c, 'l) env \<Rightarrow> int \<Rightarrow> string \<Rightarrow> string \<Rightarrow> string \<Rightarrow> string \<Rightarrow> ('c, 'l) world
     \<Rightarrow> (go_error + ResponseData) \<times> ('c, 'l) world" where
  "initiateAPIRequest E id' action apiKey apiBase indexer w =
     (case getLimiter E indexer of
        None \<Rightarrow> (Inl (errorf (''could not get rate limiter for indexer: '' @ indexer)), w)
      | Some limiter \<Rightarrow>
          (let endpoint = endpoint_of apiBase action id'
           in case makeRequest E endpoint apiKey limiter indexer ResponseDataPtr w of
                (Inl err, w1) \<Rightarrow>
                  (let wrappedErr =
                         errorf_w (''initiateAPIRequest failed for endpoint '' @ endpoint @ '': '') err
                   in (Inl wrappedErr,
                       emit ErrorLevel (Some (message wrappedErr))
                         ''API request initiation error'' w1))
              | (Inr responseData, w1) \<Rightarrow>
                  (case (if action = ''torrent'' then Torrent (Response responseData) else None) of
                     Some torrent \<Rightarrow>
                       (let releaseName = html_UnescapeString E (ReleaseName torrent);
                            uploader = Username torrent
                        in (Inr responseData,
                            emit DebugLevel None
                              (''['' @ indexer @ ''] Checking release: '' @ releaseName
                                @ '' - (Uploader: '' @ uploader @ '') (TorrentID: ''
                                @ fmt_d id' @ '')'') w1))
                   | None \<Rightarrow> (Inr responseData, w1))))"

subsection \<open>fetchResponseData\<close>

definition cacheKey_of :: "string \<Rightarrow> int \<Rightarrow> string" where
  "cacheKey_of action id' = action @ ''ID '' @ fmt_d id'"

definition fetchResponseData ::
  "('c, 'l) env \<Rightarrow> RequestData \<Rightarrow> int \<Rightarrow> string \<Rightarrow> string \<Rightarrow> ('c, 'l) world
     \<Rightarrow> (go_error + ResponseData) \<times> ('c, 'l) world" where
  "fetchResponseData E requestData id' action apiBase w =
     (let cacheKey = cacheKey_of action id'
      in case checkCache E cacheKey (Indexer requestData) (cache w) of
           Some cachedData \<Rightarrow> (Inr cachedData, w)
         | None \<Rightarrow>
             (let w1 = w\<lparr>key_lookups := Suc (key_lookups w)\<rparr>
              in case getAPIKey E requestData of
                   Inl err \<Rightarrow> (Inl err, w1)
                 | Inr apiKey \<Rightarrow>
                     (case initiateAPIRequest E id' action apiKey apiBase (Indexer requestData) w1 of
                        (Inl err, w2) \<Rightarrow>
                          (let wrappedErr =
                                 errorf_w (''error fetching '' @ action @ '' data for ID ''
                                            @ fmt_d id' @ '': '') err
                           in (Inl wrappedErr,
                               emit ErrorLevel (Some (message wrappedErr))
                                 ''Data fetching error'' w2))
                      | (Inr responseData, w2) \<Rightarrow>
                          (Inr responseData,
                           w2\<lparr>cache := cacheResponseData E cacheKey responseData (cache w2)\<rparr>))))"

section \<open>A cache store and a test double\<close>

text \<open>
  Modelled from the spec: the cache store (\<^verbatim>\<open>checkCache\<close>, \<^verbatim>\<open>cacheResponseData\<close>) is
  not in this file. The spec describes a key/value store with get and put, an entry being
  created by the first successful fetch and read by the later ones, with the interfaces
  \<^verbatim>\<open>checkCache(key, indexerScope) -> (ResponseData, found)\<close> and
  \<^verbatim>\<open>cacheResponseData(key, ResponseData)\<close>. Population receives the key and the
  envelope only, as in the call of \<open>fetchResponseData\<close>, so an entry is filed under its
  key; the lookup is handed the indexer but has no scope recorded with an entry to
  compare it with.
\<close>

type_synonym store = "string \<rightharpoonup> ResponseData"

definition store_checkCache :: "string \<Rightarrow> string \<Rightarrow> store \<Rightarrow> ResponseData option" where
  "store_checkCache cacheKey indexer c = c cacheKey"

definition store_cacheResponseData :: "string \<Rightarrow> ResponseData \<Rightarrow> store \<Rightarrow> store" where
  "store_cacheResponseData cacheKey responseData c = c(cacheKey \<mapsto> responseData)"

text \<open>
  A test double for the other collaborators, in the manner of the stub API of the spec's
  testable properties: one limiter per known indexer, a limiter state that is the number
  of tokens left, a credential provider that fails on an empty reference, a remote side
  that answers by URL (one URL redirects to a login page), locations that are absolute
  URLs on the same host, a decoder that knows the bodies the remote side sends, and an
  unescaper for the entity \<open>&amp;\<close>.
\<close>

definition demo_getLimiter :: "string \<Rightarrow> nat option" where
  "demo_getLimiter indexer =
     (if indexer = ''redacted'' then Some 0 else if indexer = ''ops'' then Some 1 else None)"

definition demo_Allow :: "nat \<Rightarrow> bool \<times> nat" where
  "demo_Allow tokens = (0 < tokens, tokens - 1)"

definition demo_getAPIKey :: "RequestData \<Rightarrow> go_error + string" where
  "demo_getAPIKey requestData =
     (if CredentialRef requestData = [] then Inl (errorf ''no API key configured'')
      else Inr (CredentialRef requestData))"

definition demo_torrent :: ResponseData where
  "demo_torrent =
     \<lparr>Status = ''success'', Error = [],
      Response = \<lparr>Torrent = Some \<lparr>ReleaseName = ''Foo &amp; Bar'', Username = ''alice''\<rparr>\<rparr>\<rparr>"

definition demo_torrent_ops :: ResponseData where
  "demo_torrent_ops =
     \<lparr>Status = ''success'', Error = [],
      Response = \<lparr>Torrent = Some \<lparr>ReleaseName = ''Another Album'', Username = ''bob''\<rparr>\<rparr>\<rparr>"

definition demo_failure :: ResponseData where
  "demo_failure = \<lparr>Status = ''failure'', Error = ''bad id parameter'', Response = \<lparr>Torrent = None\<rparr>\<rparr>"

definition demo_RoundTrip :: "http_request list \<Rightarrow> http_request \<Rightarrow> go_error + http_response" where
  "demo_RoundTrip earlier req =
     (if URL req = ''https://red.example/ajax.php?action=torrent&id=42''
        then Inr \<lparr>StatusCode = 200, Location = [], Body = Inr ''torrent-42''\<rparr>
      else if URL req = ''https://ops.example/ajax.php?action=torrent&id=42''
        then Inr \<lparr>StatusCode = 200, Location = [], Body = Inr ''ops-torrent-42''\<rparr>
      else if URL req = ''https://red.example/ajax.php?action=torrent&id=7''
        then Inr \<lparr>StatusCode = 500, Location = [], Body = Inr ''torrent-42''\<rparr>
      else if URL req = ''https://red.example/ajax.php?action=torrent&id=0''
        then Inr \<lparr>StatusCode = 200, Location = [], Body = Inr ''failure''\<rparr>
      else if URL req = ''https://red.example/ajax.php?action=torrent&id=-1''
        then Inr \<lparr>StatusCode = 502, Location = [], Body = Inr ''<html>Bad Gateway</html>''\<rparr>
      else if URL req = ''https://red.example/ajax.php?action=torrent&id=302''
        then Inr \<lparr>StatusCode = 302, Location = ''https://red.example/login.php'',
                  Body = Inr ''torrent-42''\<rparr>
      else if URL req = ''https://red.example/login.php''
        then Inr \<lparr>StatusCode = 200, Location = [], Body = Inr ''<html>Login</html>''\<rparr>
      else Inl (errorf ''dial tcp: connection refused''))"

definition demo_Unmarshal :: "string \<Rightarrow> go_error + ResponseData" where
  "demo_Unmarshal respBody =
     (if respBody = ''torrent-42'' then Inr demo_torrent
      else if respBody = ''ops-torrent-42'' then Inr demo_torrent_ops
      else if respBody = ''failure'' then Inr demo_failure
      else Inl (errorf ''invalid character in JSON''))"

fun demo_Unescape :: "string \<Rightarrow> string" where
  "demo_Unescape [] = []"
| "demo_Unescape (c # s) =
     (if c = CHR ''&'' \<and> take 4 s = ''amp;'' then CHR ''&'' # demo_Unescape (drop 4 s)
      else c # demo_Unescape s)"

definition demo_env :: "(store, nat) env" where
  "demo_env =
     \<lparr>getLimiter = demo_getLimiter, limiter_Allow = demo_Allow, getAPIKey = demo_getAPIKey,
      checkCache = store_checkCache, cacheResponseData = store_cacheResponseData,
      http_NewRequest_err = (\<lambda>url. None), http_RoundTrip = demo_RoundTrip,
      url_Resolve = (\<lambda>base ref. Inr ref),
      redirect_Authorization = (\<lambda>ireq via u. Authorization ireq),
      url_Error = (\<lambda>url err. errorf_w (''Get '' @ url @ '': '') err),
      json_Unmarshal = demo_Unmarshal, json_Unmarshal_other = (\<lambda>respBody. None),
      html_UnescapeString = demo_Unescape\<rparr>"

text \<open>An initial state: empty cache, \<open>tokens\<close> tokens in every limiter, nothing done yet.\<close>

definition demo_world :: "nat \<Rightarrow> (store, nat) world" where
  "demo_world tokens =
     \<lparr>cache = Map.empty, limiters = (\<lambda>limiter. tokens), http_calls = [], log_events = [],
      key_lookups = 0, limiter_queries = 0\<rparr>"

definition demo_request :: "string \<Rightarrow> RequestData" where
  "demo_request indexer = \<lparr>Indexer = indexer, CredentialRef = ''secret''\<rparr>"

section \<open>Evaluation of the test double\<close>

lemmas model_defs =
  fetchResponseData_def initiateAPIRequest_def makeRequest_def client_Do_def client_follow.simps
  shouldRedirect_def cacheKey_of_def endpoint_of_def emit_def errorf_def errorf_w_def Let_def

lemmas demo_defs =
  demo_env_def demo_world_def demo_request_def demo_getLimiter_def demo_Allow_def
  demo_getAPIKey_def demo_RoundTrip_def demo_Unmarshal_def store_checkCache_def
  store_cacheResponseData_def

lemma fmt_d_42: "fmt_d 42 = ''42''"
  by (simp add: fmt_d_def dec_nat.simps digit_char_def)

lemma fmt_d_0: "fmt_d 0 = ''0''"
  by (simp add: fmt_d_def dec_nat.simps digit_char_def)

lemma fmt_d_7: "fmt_d 7 = ''7''"
  by (simp add: fmt_d_def dec_nat.simps digit_char_def)

lemma fmt_d_minus_1: "fmt_d (- 1) = ''-1''"
  by (simp add: fmt_d_def dec_nat.simps digit_char_def)

lemma fmt_d_302: "fmt_d 302 = ''302''"
  by (simp add: fmt_d_def dec_nat.simps digit_char_def)

lemmas fmt_d_evals = fmt_d_42 fmt_d_0 fmt_d_7 fmt_d_minus_1 fmt_d_302

section \<open>The decimal rendering\<close>

lemma digit_cases:
  assumes "d < (10::nat)"
  shows "d \<in> {0, 1, 2, 3, 4, 5, 6, 7, 8, 9}"
  using assms by auto

lemma digit_val_digit_char:
  assumes "d < 10"
  shows "digit_val (digit_char d) = d"
  using digit_cases [OF assms] by (auto simp: digit_val_def digit_char_def)

lemma digit_char_not_minus:
  assumes "d < 10"
  shows "digit_char d \<noteq> CHR ''-''"
  using digit_cases [OF assms] by (auto simp: digit_char_def)

lemma dec_value_snoc: "dec_value (s @ [c]) = 10 * dec_value s + digit_val c"
  by (simp add: dec_value_def)

lemma dec_value_dec_nat: "dec_value (dec_nat n) = n"
proof (induction n rule: dec_nat.induct)
  case (1 n)
  show ?case
  proof (cases "n < 10")
    case True
    then show ?thesis
      by (subst dec_nat.simps) (simp add: dec_value_def digit_val_digit_char)
  next
    case False
    with 1 have "dec_value (dec_nat (n div 10)) = n div 10" by simp
    with False show ?thesis
      by (subst dec_nat.simps) (simp add: dec_value_snoc digit_val_digit_char)
  qed
qed

lemma dec_nat_hd: "dec_nat n \<noteq> [] \<and> hd (dec_nat n) \<noteq> CHR ''-''"
proof (induction n rule: dec_nat.induct)
  case (1 n)
  show ?case
  proof (cases "n < 10")
    case True
    then show ?thesis
      by (subst (1 2) dec_nat.simps) (simp add: digit_char_not_minus)
  next
    case False
    with 1 have "dec_nat (n div 10) \<noteq> [] \<and> hd (dec_nat (n div 10)) \<noteq> CHR ''-''" by simp
    with False show ?thesis
      by (subst (1 2) dec_nat.simps) simp
  qed
qed

text \<open>Reading back what \<^verbatim>\<open>%d\<close> wrote gives the integer: the rendering loses nothing.\<close>

lemma parse_d_fmt_d: "parse_d (fmt_d i) = i"
  using dec_nat_hd [of "nat i"]
  by (simp add: parse_d_def fmt_d_def dec_value_dec_nat)

lemma fmt_d_inj: "fmt_d i = fmt_d j \<Longrightarrow> i = j"
  by (metis parse_d_fmt_d)

section \<open>Endpoint resolution\<close>

text \<open>
  C8. For the two compiled-in indexers, \<open>redacted\<close> and \<open>ops\<close>, \<open>determineAPIBase\<close>
  returns that indexer's base URL; for every other indexer it fails with the error
  \<open>invalid path\<close>. It is a function of the indexer alone: it takes no state and no
  collaborator, so it is deterministic and has no effect.
\<close>

theorem determineAPIBase_resolves:
  "determineAPIBase red ops ''redacted'' = Inr red \<and>
   determineAPIBase red ops ''ops'' = Inr ops \<and>
   (indexer \<notin> {''redacted'', ''ops''} \<longrightarrow>
      determineAPIBase red ops indexer = Inl (GoError ''invalid path'' None))"
  by (simp add: determineAPIBase_def errorf_def)

theorem determineAPIBase_resolves_witness:
  "''orpheus'' \<notin> {''redacted'', ''ops''} \<and>
   determineAPIBase ''https://red.example/ajax.php'' ''https://ops.example/ajax.php'' ''redacted''
     = Inr ''https://red.example/ajax.php'' \<and>
   determineAPIBase ''https://red.example/ajax.php'' ''https://ops.example/ajax.php'' ''ops''
     = Inr ''https://ops.example/ajax.php'' \<and>
   determineAPIBase ''https://red.example/ajax.php'' ''https://ops.example/ajax.php'' ''orpheus''
     = Inl (GoError ''invalid path'' None)"
proof -
  have h: "''orpheus'' \<notin> {''redacted'', ''ops''}" by simp
  show ?thesis
    using h determineAPIBase_resolves
      [of "''https://red.example/ajax.php''" "''https://ops.example/ajax.php''" "''orpheus''"]
    by blast
qed

section \<open>The client\<close>

lemma client_follow_sent:
  "\<exists>rest. snd (client_follow E hops ireq via req sent) = sent @ req # rest"
proof (induction hops arbitrary: via req sent)
  case 0
  show ?case
    by (subst client_follow.simps) (simp split: sum.split)
next
  case (Suc n)
  show ?case
  proof (cases "http_RoundTrip E sent req")
    case (Inl err)
    then show ?thesis by (subst client_follow.simps) simp
  next
    case (Inr resp)
    show ?thesis
    proof (cases "\<not> shouldRedirect (StatusCode resp) \<or> Location resp = []")
      case True
      with Inr show ?thesis by (subst client_follow.simps) auto
    next
      case False
      show ?thesis
      proof (cases "url_Resolve E (URL req) (Location resp)")
        case (Inl err)
        with Inr False show ?thesis by (subst client_follow.simps) simp
      next
        case u: (Inr u)
        from Suc.IH [of "via @ [req]"
            "\<lparr>Method = Method req, URL = u,
              Authorization = redirect_Authorization E ireq (via @ [req]) u\<rparr>" "sent @ [req]"]
        obtain rest where "snd (client_follow E n ireq (via @ [req])
            \<lparr>Method = Method req, URL = u,
              Authorization = redirect_Authorization E ireq (via @ [req]) u\<rparr> (sent @ [req])) =
            (sent @ [req]) @ \<lparr>Method = Method req, URL = u,
              Authorization = redirect_Authorization E ireq (via @ [req]) u\<rparr> # rest"
          by blast
        with Inr False u show ?thesis by (subst client_follow.simps) simp
      qed
    qed
  qed
qed

lemma client_Do_sent: "\<exists>rest. snd (client_Do E req sent) = sent @ req # rest"
  unfolding client_Do_def by (rule client_follow_sent)

text \<open>A response that is not a redirect to follow is handed back, after one request.\<close>

lemma client_Do_handed_back:
  assumes "http_RoundTrip E sent req = Inr resp"
    and "\<not> shouldRedirect (StatusCode resp) \<or> Location resp = []"
  shows "client_Do E req sent = (Inr resp, sent @ [req])"
  using assms unfolding client_Do_def by (subst client_follow.simps) auto

lemma client_follow_unescape:
  "client_follow (E\<lparr>html_UnescapeString := f\<rparr>) hops ireq via req sent =
   client_follow E hops ireq via req sent"
proof (induction hops arbitrary: via req sent)
  case 0
  show ?case
    by (subst (1 2) client_follow.simps) (simp split: sum.split)
next
  case (Suc n)
  show ?case
    by (subst (1 2) client_follow.simps) (simp add: Suc.IH split: sum.split)
qed

lemma client_Do_unescape:
  "client_Do (E\<lparr>html_UnescapeString := f\<rparr>) req sent = client_Do E req sent"
  by (simp add: client_Do_def client_follow_unescape)

section \<open>The request executor\<close>

lemma makeRequest_cache:
  "cache (snd (makeRequest E endpoint apiKey limiter indexer tgt w)) = cache w"
  by (simp add: makeRequest_def emit_def Let_def
      split: prod.split option.split sum.split target.split)

lemma makeRequest_key_lookups:
  "key_lookups (snd (makeRequest E endpoint apiKey limiter indexer tgt w)) = key_lookups w"
  by (simp add: makeRequest_def emit_def Let_def
      split: prod.split option.split sum.split target.split)

lemma makeRequest_limiter_queries:
  "limiter_queries (snd (makeRequest E endpoint apiKey limiter indexer tgt w)) =
     Suc (limiter_queries w)"
  by (simp add: makeRequest_def emit_def Let_def
      split: prod.split option.split sum.split target.split)

text \<open>
  A call that returns \<^verbatim>\<open>nil\<close> went through every step: the client handed a response
  back, its body was read and decoded, the decoded envelope has the status \<open>success\<close> and
  is what the target holds; nothing was logged.
\<close>

lemma makeRequest_Inr:
  assumes "makeRequest E endpoint apiKey limiter indexer tgt w = (Inr r, w')"
  shows "Status r = ''success'' \<and> tgt = ResponseDataPtr \<and>
         (\<exists>resp respBody.
            fst (client_Do E \<lparr>Method = ''GET'', URL = endpoint, Authorization = apiKey\<rparr>
                   (http_calls w)) = Inr resp \<and>
            Body resp = Inr respBody \<and> json_Unmarshal E respBody = Inr r) \<and>
         http_calls w' =
           snd (client_Do E \<lparr>Method = ''GET'', URL = endpoint, Authorization = apiKey\<rparr>
                  (http_calls w)) \<and>
         log_events w' = log_events w"
  using assms
  by (auto simp: makeRequest_def emit_def Let_def
      split: prod.splits option.splits sum.splits target.splits if_splits)

lemma makeRequest_denied:
  assumes "\<not> fst (limiter_Allow E (limiters w limiter))"
  shows "makeRequest E endpoint apiKey limiter indexer tgt w =
      (Inl (GoError ''too many requests'' None),
       w\<lparr>limiters := (limiters w)(limiter := snd (limiter_Allow E (limiters w limiter))),
         limiter_queries := Suc (limiter_queries w),
         log_events := log_events w @
           [LogEvent WarnLevel None (indexer @ '': Too many requests'')]\<rparr>)"
  using assms
  by (cases "limiter_Allow E (limiters w limiter)")
     (simp add: makeRequest_def emit_def errorf_def)

lemma makeRequest_admitted_calls:
  assumes "fst (limiter_Allow E (limiters w limiter))"
    and "http_NewRequest_err E endpoint = None"
  shows "http_calls (snd (makeRequest E endpoint apiKey limiter indexer tgt w)) =
           snd (client_Do E \<lparr>Method = ''GET'', URL = endpoint, Authorization = apiKey\<rparr>
                  (http_calls w))"
  using assms
  by (cases "limiter_Allow E (limiters w limiter)")
     (simp add: makeRequest_def emit_def Let_def
       split: prod.split sum.split option.split target.split)

lemma makeRequest_decoded:
  assumes "fst (limiter_Allow E (limiters w limiter))"
    and "http_NewRequest_err E endpoint = None"
    and "fst (client_Do E \<lparr>Method = ''GET'', URL = endpoint, Authorization = apiKey\<rparr>
                (http_calls w)) = Inr resp"
    and "Body resp = Inr respBody"
  shows "fst (makeRequest E endpoint apiKey limiter indexer ResponseDataPtr w) =
           (case json_Unmarshal E respBody of
              Inl err \<Rightarrow> Inl err
            | Inr r \<Rightarrow> if Status r = ''success'' then Inr r
                       else Inl (GoError (''API error from '' @ indexer @ '': '' @ Error r) None))"
proof -
  obtain l' where a: "limiter_Allow E (limiters w limiter) = (True, l')"
    using assms(1) by (cases "limiter_Allow E (limiters w limiter)") simp
  obtain sent where d: "client_Do E \<lparr>Method = ''GET'', URL = endpoint, Authorization = apiKey\<rparr>
                          (http_calls w) = (Inr resp, sent)"
    using assms(3)
    by (cases "client_Do E \<lparr>Method = ''GET'', URL = endpoint, Authorization = apiKey\<rparr>
                 (http_calls w)") simp
  from a d assms(2,4) show ?thesis
    by (simp add: makeRequest_def emit_def errorf_def Let_def split: sum.split)
qed

lemma makeRequest_unescape:
  "makeRequest (E\<lparr>html_UnescapeString := f\<rparr>) endpoint apiKey limiter indexer tgt w =
   makeRequest E endpoint apiKey limiter indexer tgt w"
  by (simp add: makeRequest_def client_Do_unescape Let_def
      split: prod.split option.split sum.split target.split)

text \<open>
  C3. When the limiter's \<^verbatim>\<open>Allow\<close> denies the token, \<open>makeRequest\<close> returns the error
  \<open>too many requests\<close> and the list of outbound HTTP calls is what it was. The limiter
  was asked once, and the answer was acted on at once: there is no second query and no
  waiting step in the function.
\<close>

theorem makeRequest_rate_limited:
  assumes "\<not> fst (limiter_Allow E (limiters w limiter))"
  shows "fst (makeRequest E endpoint apiKey limiter indexer tgt w) =
           Inl (GoError ''too many requests'' None) \<and>
         http_calls (snd (makeRequest E endpoint apiKey limiter indexer tgt w)) = http_calls w \<and>
         limiter_queries (snd (makeRequest E endpoint apiKey limiter indexer tgt w)) =
           Suc (limiter_queries w)"
  by (simp add: makeRequest_denied [OF assms])

theorem makeRequest_rate_limited_witness:
  "\<not> fst (limiter_Allow demo_env (limiters (demo_world 0) 0)) \<and>
   fst (makeRequest demo_env ''https://red.example/ajax.php?action=torrent&id=42'' ''secret'' 0
          ''redacted'' ResponseDataPtr (demo_world 0)) = Inl (GoError ''too many requests'' None) \<and>
   http_calls (snd (makeRequest demo_env ''https://red.example/ajax.php?action=torrent&id=42''
          ''secret'' 0 ''redacted'' ResponseDataPtr (demo_world 0))) = []"
proof -
  have h: "\<not> fst (limiter_Allow demo_env (limiters (demo_world 0) 0))"
    by (simp add: demo_env_def demo_world_def demo_Allow_def)
  have e: "http_calls (demo_world 0) = []"
    by (simp add: demo_world_def)
  show ?thesis
    using h e makeRequest_rate_limited [OF h,
      of "''https://red.example/ajax.php?action=torrent&id=42''" "''secret''" "''redacted''"
         ResponseDataPtr]
    by simp
qed

text \<open>
  C4. When the call was admitted, the request was built, the client handed a response
  back, the body was read and it decodes into an envelope \<open>r\<close>: if the status of \<open>r\<close> is
  not \<open>success\<close>, \<open>makeRequest\<close> fails with the error
  \<open>API error from <indexer>: <r.Error>\<close>, the indexer label and the envelope's error
  string unchanged; if it is \<open>success\<close>, \<^verbatim>\<open>nil\<close> is returned and the target holds \<open>r\<close> as
  decoded.
\<close>

theorem makeRequest_status_validation:
  assumes "fst (limiter_Allow E (limiters w limiter))"
    and "http_NewRequest_err E endpoint = None"
    and "fst (client_Do E \<lparr>Method = ''GET'', URL = endpoint, Authorization = apiKey\<rparr>
                (http_calls w)) = Inr resp"
    and "Body resp = Inr respBody"
    and "json_Unmarshal E respBody = Inr r"
  shows "(Status r \<noteq> ''success'' \<longrightarrow>
            fst (makeRequest E endpoint apiKey limiter indexer ResponseDataPtr w) =
              Inl (GoError (''API error from '' @ indexer @ '': '' @ Error r) None)) \<and>
         (Status r = ''success'' \<longrightarrow>
            fst (makeRequest E endpoint apiKey limiter indexer ResponseDataPtr w) = Inr r)"
  using makeRequest_decoded [OF assms(1-4), of indexer] assms(5) by simp

lemma demo_Do_handed_back:
  assumes "demo_RoundTrip [] \<lparr>Method = ''GET'', URL = u, Authorization = k\<rparr> = Inr resp"
    and "\<not> shouldRedirect (StatusCode resp) \<or> Location resp = []"
  shows "fst (client_Do demo_env \<lparr>Method = ''GET'', URL = u, Authorization = k\<rparr>
                (http_calls (demo_world n))) = Inr resp"
proof -
  have "http_RoundTrip demo_env (http_calls (demo_world n))
          \<lparr>Method = ''GET'', URL = u, Authorization = k\<rparr> = Inr resp"
    using assms(1) by (simp add: demo_env_def demo_world_def)
  from client_Do_handed_back [OF this assms(2)] show ?thesis by simp
qed

theorem makeRequest_status_validation_witness:
  "Status demo_failure \<noteq> ''success'' \<and>
   fst (makeRequest demo_env ''https://red.example/ajax.php?action=torrent&id=0'' ''secret'' 0
          ''redacted'' ResponseDataPtr (demo_world 1)) =
     Inl (GoError ''API error from redacted: bad id parameter'' None) \<and>
   Status demo_torrent = ''success'' \<and>
   fst (makeRequest demo_env ''https://red.example/ajax.php?action=torrent&id=42'' ''secret'' 0
          ''redacted'' ResponseDataPtr (demo_world 1)) = Inr demo_torrent"
proof -
  have allow: "fst (limiter_Allow demo_env (limiters (demo_world 1) 0))"
    by (simp add: demo_defs)
  have req: "http_NewRequest_err demo_env u = None" for u
    by (simp add: demo_defs)
  have do0: "fst (client_Do demo_env
           \<lparr>Method = ''GET'', URL = ''https://red.example/ajax.php?action=torrent&id=0'',
              Authorization = ''secret''\<rparr> (http_calls (demo_world 1)))
         = Inr \<lparr>StatusCode = 200, Location = [], Body = Inr ''failure''\<rparr>"
    by (rule demo_Do_handed_back) (simp_all add: demo_RoundTrip_def)
  have do42: "fst (client_Do demo_env
           \<lparr>Method = ''GET'', URL = ''https://red.example/ajax.php?action=torrent&id=42'',
              Authorization = ''secret''\<rparr> (http_calls (demo_world 1)))
         = Inr \<lparr>StatusCode = 200, Location = [], Body = Inr ''torrent-42''\<rparr>"
    by (rule demo_Do_handed_back) (simp_all add: demo_RoundTrip_def)
  have b0: "Body \<lparr>StatusCode = 200, Location = [], Body = Inr ''failure''\<rparr> = Inr ''failure''"
    by simp
  have b42: "Body \<lparr>StatusCode = 200, Location = [], Body = Inr ''torrent-42''\<rparr> =
               Inr ''torrent-42''"
    by simp
  have u0: "json_Unmarshal demo_env ''failure'' = Inr demo_failure"
    by (simp add: demo_defs)
  have u42: "json_Unmarshal demo_env ''torrent-42'' = Inr demo_torrent"
    by (simp add: demo_defs)
  have s0: "Status demo_failure \<noteq> ''success''" "Error demo_failure = ''bad id parameter''"
    by (simp_all add: demo_failure_def)
  have s42: "Status demo_torrent = ''success''" by (simp add: demo_torrent_def)
  show ?thesis
    using makeRequest_status_validation [OF allow req do0 b0 u0, of "''redacted''"]
      makeRequest_status_validation [OF allow req do42 b42 u42, of "''redacted''"] s0 s42
    by simp
qed

text \<open>
  C10, as the code has it. \<open>makeRequest\<close> never reads the status code of the response
  \<^verbatim>\<open>http.DefaultClient.Do\<close> hands back: the outcome is decided by the body alone. So a
  response handed back with any status code \<open>sc\<close> whose body decodes into an envelope
  with the status \<open>success\<close> makes the request succeed with that envelope (a 500 with a
  success-shaped body succeeds), and one whose body does not decode fails with the
  decoder's error, not with an error about the status.
\<close>

theorem makeRequest_ignores_StatusCode:
  assumes "fst (limiter_Allow E (limiters w limiter))"
    and "http_NewRequest_err E endpoint = None"
    and "fst (client_Do E \<lparr>Method = ''GET'', URL = endpoint, Authorization = apiKey\<rparr>
                (http_calls w)) =
         Inr \<lparr>StatusCode = sc, Location = loc, Body = Inr respBody\<rparr>"
  shows "(json_Unmarshal E respBody = Inr r \<and> Status r = ''success'' \<longrightarrow>
            fst (makeRequest E endpoint apiKey limiter indexer ResponseDataPtr w) = Inr r) \<and>
         (json_Unmarshal E respBody = Inl decodeErr \<longrightarrow>
            fst (makeRequest E endpoint apiKey limiter indexer ResponseDataPtr w) = Inl decodeErr) \<and>
         fst (makeRequest E endpoint apiKey limiter indexer ResponseDataPtr w) =
           (case json_Unmarshal E respBody of
              Inl err \<Rightarrow> Inl err
            | Inr r' \<Rightarrow>
                if Status r' = ''success'' then Inr r'
                else Inl (GoError (''API error from '' @ indexer @ '': '' @ Error r') None))"
proof -
  have b: "Body \<lparr>StatusCode = sc, Location = loc, Body = Inr respBody\<rparr> = Inr respBody"
    by simp
  show ?thesis
    using makeRequest_decoded [OF assms(1-3) b, of indexer]
    by simp
qed

text \<open>
  C10, as stated, fails for a transport response the client does not hand back. The
  transport answers the request for id 302 with status 302, a \<^verbatim>\<open>Location\<close> and a body
  that decodes into an envelope with the status \<open>success\<close>; the client follows the
  redirect, and \<open>makeRequest\<close> fails on the body of the page it was sent to. Two requests
  were sent.
\<close>

theorem makeRequest_redirect_followed:
  "http_RoundTrip demo_env []
     \<lparr>Method = ''GET'', URL = ''https://red.example/ajax.php?action=torrent&id=302'',
        Authorization = ''secret''\<rparr> =
     Inr \<lparr>StatusCode = 302, Location = ''https://red.example/login.php'',
           Body = Inr ''torrent-42''\<rparr> \<and>
   json_Unmarshal demo_env ''torrent-42'' = Inr demo_torrent \<and>
   Status demo_torrent = ''success'' \<and>
   fst (makeRequest demo_env ''https://red.example/ajax.php?action=torrent&id=302'' ''secret'' 0
          ''redacted'' ResponseDataPtr (demo_world 1)) =
     Inl (GoError ''invalid character in JSON'' None) \<and>
   http_calls (snd (makeRequest demo_env ''https://red.example/ajax.php?action=torrent&id=302''
          ''secret'' 0 ''redacted'' ResponseDataPtr (demo_world 1))) =
     [\<lparr>Method = ''GET'', URL = ''https://red.example/ajax.php?action=torrent&id=302'',
        Authorization = ''secret''\<rparr>,
      \<lparr>Method = ''GET'', URL = ''https://red.example/login.php'', Authorization = ''secret''\<rparr>]"
  by (simp add: model_defs demo_defs demo_torrent_def)

theorem makeRequest_ignores_StatusCode_witness:
  "json_Unmarshal demo_env ''torrent-42'' = Inr demo_torrent \<and>
   Status demo_torrent = ''success'' \<and>
   fst (client_Do demo_env \<lparr>Method = ''GET'',
          URL = ''https://red.example/ajax.php?action=torrent&id=7'', Authorization = ''secret''\<rparr>
          (http_calls (demo_world 1))) =
     Inr \<lparr>StatusCode = 500, Location = [], Body = Inr ''torrent-42''\<rparr> \<and>
   fst (makeRequest demo_env ''https://red.example/ajax.php?action=torrent&id=7'' ''secret'' 0
          ''redacted'' ResponseDataPtr (demo_world 1)) = Inr demo_torrent \<and>
   json_Unmarshal demo_env ''<html>Bad Gateway</html>'' =
     Inl (GoError ''invalid character in JSON'' None) \<and>
   fst (client_Do demo_env \<lparr>Method = ''GET'',
          URL = ''https://red.example/ajax.php?action=torrent&id=-1'', Authorization = ''secret''\<rparr>
          (http_calls (demo_world 1))) =
     Inr \<lparr>StatusCode = 502, Location = [], Body = Inr ''<html>Bad Gateway</html>''\<rparr> \<and>
   fst (makeRequest demo_env ''https://red.example/ajax.php?action=torrent&id=-1'' ''secret'' 0
          ''redacted'' ResponseDataPtr (demo_world 1)) =
     Inl (GoError ''invalid character in JSON'' None)"
proof -
  have allow: "fst (limiter_Allow demo_env (limiters (demo_world 1) 0))"
    by (simp add: demo_defs)
  have req: "http_NewRequest_err demo_env u = None" for u
    by (simp add: demo_defs)
  have do7: "fst (client_Do demo_env
           \<lparr>Method = ''GET'', URL = ''https://red.example/ajax.php?action=torrent&id=7'',
              Authorization = ''secret''\<rparr> (http_calls (demo_world 1)))
         = Inr \<lparr>StatusCode = 500, Location = [], Body = Inr ''torrent-42''\<rparr>"
    by (rule demo_Do_handed_back) (simp_all add: demo_RoundTrip_def)
  have do1: "fst (client_Do demo_env
           \<lparr>Method = ''GET'', URL = ''https://red.example/ajax.php?action=torrent&id=-1'',
              Authorization = ''secret''\<rparr> (http_calls (demo_world 1)))
         = Inr \<lparr>StatusCode = 502, Location = [], Body = Inr ''<html>Bad Gateway</html>''\<rparr>"
    by (rule demo_Do_handed_back) (simp_all add: demo_RoundTrip_def)
  have u7: "json_Unmarshal demo_env ''torrent-42'' = Inr demo_torrent"
    by (simp add: demo_defs)
  have u1: "json_Unmarshal demo_env ''<html>Bad Gateway</html>'' =
              Inl (GoError ''invalid character in JSON'' None)"
    by (simp add: demo_defs errorf_def)
  have s7: "Status demo_torrent = ''success''"
    by (simp add: demo_torrent_def)
  show ?thesis
    using makeRequest_ignores_StatusCode [OF allow req do7,
            of demo_torrent "''redacted''" "GoError ''invalid character in JSON'' None"]
      makeRequest_ignores_StatusCode [OF allow req do1,
            of demo_torrent "''redacted''" "GoError ''invalid character in JSON'' None"]
      u7 u1 s7 do7 do1
    by simp
qed

section \<open>The request orchestrator\<close>

lemma initiateAPIRequest_cache:
  "cache (snd (initiateAPIRequest E id' action apiKey apiBase indexer w)) = cache w"
proof (cases "getLimiter E indexer")
  case None
  then show ?thesis by (simp add: initiateAPIRequest_def)
next
  case (Some limiter)
  obtain res w1 where m: "makeRequest E (endpoint_of apiBase action id') apiKey limiter indexer ResponseDataPtr w = (res, w1)"
    by (cases "makeRequest E (endpoint_of apiBase action id') apiKey limiter indexer ResponseDataPtr w")
  have "cache w1 = cache w" using makeRequest_cache [of E "endpoint_of apiBase action id'" apiKey limiter indexer ResponseDataPtr w] m by simp
  with Some m show ?thesis
    by (simp add: initiateAPIRequest_def emit_def Let_def split: sum.split option.split)
qed

lemma initiateAPIRequest_key_lookups:
  "key_lookups (snd (initiateAPIRequest E id' action apiKey apiBase indexer w)) = key_lookups w"
proof (cases "getLimiter E indexer")
  case None
  then show ?thesis by (simp add: initiateAPIRequest_def)
next
  case (Some limiter)
  obtain res w1 where m: "makeRequest E (endpoint_of apiBase action id') apiKey limiter indexer ResponseDataPtr w = (res, w1)"
    by (cases "makeRequest E (endpoint_of apiBase action id') apiKey limiter indexer ResponseDataPtr w")
  have "key_lookups w1 = key_lookups w" using makeRequest_key_lookups [of E "endpoint_of apiBase action id'" apiKey limiter indexer ResponseDataPtr w] m by simp
  with Some m show ?thesis
    by (simp add: initiateAPIRequest_def emit_def Let_def split: sum.split option.split)
qed

lemma initiateAPIRequest_Inr:
  assumes "initiateAPIRequest E id' action apiKey apiBase indexer w = (Inr r, w')"
  shows "\<exists>limiter w1. getLimiter E indexer = Some limiter \<and>
           makeRequest E (endpoint_of apiBase action id') apiKey limiter indexer ResponseDataPtr w = (Inr r, w1) \<and>
           w' = w1\<lparr>log_events := log_events w'\<rparr>"
  using assms
  by (auto simp: initiateAPIRequest_def emit_def Let_def
      split: option.splits sum.splits prod.splits if_splits)

lemma initiateAPIRequest_Inl:
  assumes "initiateAPIRequest E id' action apiKey apiBase indexer w = (Inl e, w')"
  shows "(getLimiter E indexer = None \<and> e = GoError (''could not get rate limiter for indexer: '' @ indexer) None) \<or>
         (\<exists>limiter inner w1. getLimiter E indexer = Some limiter \<and>
            makeRequest E (endpoint_of apiBase action id') apiKey limiter indexer ResponseDataPtr w = (Inl inner, w1) \<and>
            e = GoError (''initiateAPIRequest failed for endpoint '' @ endpoint_of apiBase action id' @ '': '' @ message inner) (Some inner))"
  using assms
  by (auto simp: initiateAPIRequest_def emit_def Let_def errorf_def errorf_w_def
      split: option.splits sum.splits prod.splits if_splits)

lemma initiateAPIRequest_calls:
  assumes "getLimiter E indexer = Some limiter"
  shows "http_calls (snd (initiateAPIRequest E id' action apiKey apiBase indexer w)) =
         http_calls (snd (makeRequest E (endpoint_of apiBase action id') apiKey limiter indexer ResponseDataPtr w))"
  using assms
  by (simp add: initiateAPIRequest_def emit_def Let_def split: prod.split sum.split option.split)

lemma initiateAPIRequest_unescape:
  "fst (initiateAPIRequest (E\<lparr>html_UnescapeString := f\<rparr>) id' action apiKey apiBase indexer w) =
   fst (initiateAPIRequest E id' action apiKey apiBase indexer w) \<and>
   (snd (initiateAPIRequest (E\<lparr>html_UnescapeString := f\<rparr>) id' action apiKey apiBase indexer w))
     \<lparr>log_events := l\<rparr> =
   (snd (initiateAPIRequest E id' action apiKey apiBase indexer w))\<lparr>log_events := l\<rparr>"
  by (simp add: initiateAPIRequest_def makeRequest_unescape emit_def Let_def
      split: prod.split sum.split option.split)

section \<open>Cached fetch\<close>

lemma fetch_hit:
  assumes "checkCache E (cacheKey_of action id') (Indexer requestData) (cache w) = Some r"
  shows "fetchResponseData E requestData id' action apiBase w = (Inr r, w)"
  using assms by (simp add: fetchResponseData_def)

lemma fetch_miss:
  assumes "checkCache E (cacheKey_of action id') (Indexer requestData) (cache w) = None"
  shows "fetchResponseData E requestData id' action apiBase w =
     (case getAPIKey E requestData of
        Inl err \<Rightarrow> (Inl err, w\<lparr>key_lookups := Suc (key_lookups w)\<rparr>)
      | Inr apiKey \<Rightarrow>
          (case initiateAPIRequest E id' action apiKey apiBase (Indexer requestData)
                  (w\<lparr>key_lookups := Suc (key_lookups w)\<rparr>) of
             (Inl err, w2) \<Rightarrow>
               (Inl (GoError (''error fetching '' @ action @ '' data for ID '' @ fmt_d id' @ '': ''
                               @ message err) (Some err)),
                w2\<lparr>log_events := log_events w2 @
                     [LogEvent ErrorLevel
                        (Some (''error fetching '' @ action @ '' data for ID '' @ fmt_d id' @ '': ''
                               @ message err)) ''Data fetching error'']\<rparr>)
           | (Inr responseData, w2) \<Rightarrow>
               (Inr responseData,
                w2\<lparr>cache := cacheResponseData E (cacheKey_of action id') responseData (cache w2)\<rparr>)))"
  using assms
  by (simp add: fetchResponseData_def Let_def errorf_w_def emit_def split: sum.split prod.split)

lemma fetch_Inr_cases:
  assumes "fetchResponseData E requestData id' action apiBase w = (Inr r, w')"
  shows "(checkCache E (cacheKey_of action id') (Indexer requestData) (cache w) = Some r \<and> w' = w) \<or>
         (checkCache E (cacheKey_of action id') (Indexer requestData) (cache w) = None \<and>
          (\<exists>apiKey w2. getAPIKey E requestData = Inr apiKey \<and>
             initiateAPIRequest E id' action apiKey apiBase (Indexer requestData)
               (w\<lparr>key_lookups := Suc (key_lookups w)\<rparr>) = (Inr r, w2) \<and>
             w' = w2\<lparr>cache := cacheResponseData E (cacheKey_of action id') r (cache w)\<rparr>))"
proof (cases "checkCache E (cacheKey_of action id') (Indexer requestData) (cache w)")
  case (Some c)
  with assms show ?thesis by (simp add: fetch_hit)
next
  case None
  show ?thesis
  proof (cases "getAPIKey E requestData")
    case (Inl err)
    with None assms show ?thesis by (simp add: fetch_miss)
  next
    case (Inr apiKey)
    obtain res w2 where i: "initiateAPIRequest E id' action apiKey apiBase (Indexer requestData)
               (w\<lparr>key_lookups := Suc (key_lookups w)\<rparr>) = (res, w2)"
      by (cases "initiateAPIRequest E id' action apiKey apiBase (Indexer requestData)
               (w\<lparr>key_lookups := Suc (key_lookups w)\<rparr>)")
    have c: "cache w2 = cache w"
      using initiateAPIRequest_cache [of E id' action apiKey apiBase "Indexer requestData"
               "w\<lparr>key_lookups := Suc (key_lookups w)\<rparr>"] i by simp
    from None Inr i assms c show ?thesis
      by (cases res) (auto simp: fetch_miss)
  qed
qed

lemma fetch_Inl_cases:
  assumes "fetchResponseData E requestData id' action apiBase w = (Inl e, w')"
  shows "checkCache E (cacheKey_of action id') (Indexer requestData) (cache w) = None \<and>
         ((getAPIKey E requestData = Inl e \<and> w' = w\<lparr>key_lookups := Suc (key_lookups w)\<rparr>) \<or>
          (\<exists>apiKey inner w2. getAPIKey E requestData = Inr apiKey \<and>
             initiateAPIRequest E id' action apiKey apiBase (Indexer requestData)
               (w\<lparr>key_lookups := Suc (key_lookups w)\<rparr>) = (Inl inner, w2) \<and>
             e = GoError (''error fetching '' @ action @ '' data for ID '' @ fmt_d id' @ '': ''
                               @ message inner) (Some inner) \<and>
             w' = w2\<lparr>log_events := log_events w'\<rparr>))"
proof (cases "checkCache E (cacheKey_of action id') (Indexer requestData) (cache w)")
  case (Some c)
  with assms show ?thesis by (simp add: fetch_hit)
next
  case None
  show ?thesis
  proof (cases "getAPIKey E requestData")
    case (Inl err)
    with None assms show ?thesis by (simp add: fetch_miss)
  next
    case (Inr apiKey)
    obtain res w2 where i: "initiateAPIRequest E id' action apiKey apiBase (Indexer requestData)
               (w\<lparr>key_lookups := Suc (key_lookups w)\<rparr>) = (res, w2)"
      by (cases "initiateAPIRequest E id' action apiKey apiBase (Indexer requestData)
               (w\<lparr>key_lookups := Suc (key_lookups w)\<rparr>)")
    from None Inr i assms show ?thesis
      by (cases res) (auto simp: fetch_miss)
  qed
qed

lemma fetch_miss_calls:
  assumes "checkCache E (cacheKey_of action id') (Indexer requestData) (cache w) = None"
    and "getAPIKey E requestData = Inr apiKey"
  shows "http_calls (snd (fetchResponseData E requestData id' action apiBase w)) =
         http_calls (snd (initiateAPIRequest E id' action apiKey apiBase (Indexer requestData)
                            (w\<lparr>key_lookups := Suc (key_lookups w)\<rparr>)))"
  using assms
  by (simp add: fetch_miss split: prod.split sum.split)

lemma fetch_miss_live_call:
  assumes "checkCache E (cacheKey_of action id') (Indexer requestData) (cache w) = None"
    and "getAPIKey E requestData = Inr apiKey"
    and "getLimiter E (Indexer requestData) = Some limiter"
    and "fst (limiter_Allow E (limiters w limiter))"
    and "http_NewRequest_err E (endpoint_of apiBase action id') = None"
  shows "\<exists>rest. http_calls (snd (fetchResponseData E requestData id' action apiBase w)) =
           http_calls w @
           \<lparr>Method = ''GET'', URL = endpoint_of apiBase action id', Authorization = apiKey\<rparr> # rest"
proof -
  let ?w1 = "w\<lparr>key_lookups := Suc (key_lookups w)\<rparr>"
  have "http_calls (snd (fetchResponseData E requestData id' action apiBase w)) =
        snd (client_Do E
               \<lparr>Method = ''GET'', URL = endpoint_of apiBase action id', Authorization = apiKey\<rparr>
               (http_calls ?w1))"
    using assms
    by (simp add: fetch_miss_calls initiateAPIRequest_calls makeRequest_admitted_calls)
  then show ?thesis
    using client_Do_sent [of E
        "\<lparr>Method = ''GET'', URL = endpoint_of apiBase action id', Authorization = apiKey\<rparr>"
        "http_calls w"]
    by simp
qed

lemma fetchResponseData_unescape:
  "fst (fetchResponseData (E\<lparr>html_UnescapeString := f\<rparr>) requestData id' action apiBase w) =
   fst (fetchResponseData E requestData id' action apiBase w) \<and>
   cache (snd (fetchResponseData (E\<lparr>html_UnescapeString := f\<rparr>) requestData id' action apiBase w)) =
   cache (snd (fetchResponseData E requestData id' action apiBase w))"
proof -
  let ?E = "E\<lparr>html_UnescapeString := f\<rparr>"
  show ?thesis
  proof (cases "checkCache E (cacheKey_of action id') (Indexer requestData) (cache w)")
    case (Some c)
    then show ?thesis by (simp add: fetch_hit)
  next
    case None
    show ?thesis
    proof (cases "getAPIKey E requestData")
      case (Inl err)
      with None show ?thesis by (simp add: fetch_miss)
    next
      case (Inr apiKey)
      let ?w1 = "w\<lparr>key_lookups := Suc (key_lookups w)\<rparr>"
      obtain res w2 where i: "initiateAPIRequest E id' action apiKey apiBase (Indexer requestData) ?w1 = (res, w2)"
        by (cases "initiateAPIRequest E id' action apiKey apiBase (Indexer requestData) ?w1")
      obtain res' w2' where i': "initiateAPIRequest ?E id' action apiKey apiBase (Indexer requestData) ?w1 = (res', w2')"
        by (cases "initiateAPIRequest ?E id' action apiKey apiBase (Indexer requestData) ?w1")
      have r: "res' = res"
        using initiateAPIRequest_unescape [where E = E and f = f and w = ?w1 and indexer = "Indexer requestData"
            and id' = id' and action = action and apiKey = apiKey and apiBase = apiBase] i i'
        by simp
      have "cache w2' = cache ?w1"
        using initiateAPIRequest_cache [of ?E id' action apiKey apiBase "Indexer requestData" ?w1] i' by simp
      moreover have "cache w2 = cache ?w1"
        using initiateAPIRequest_cache [of E id' action apiKey apiBase "Indexer requestData" ?w1] i by simp
      ultimately have c: "cache w2' = cache w2" by simp
      from None Inr i i' r c show ?thesis
        by (cases res) (simp_all add: fetch_miss)
    qed
  qed
qed


lemma fetch_then_hit:
  assumes law: "\<forall>v c. checkCache E (cacheKey_of action id') (Indexer requestData')
                         (cacheResponseData E (cacheKey_of action id') v c) = Some v"
    and miss: "checkCache E (cacheKey_of action id') (Indexer requestData) (cache w) = None"
    and first: "fetchResponseData E requestData id' action apiBase w = (Inr r, w')"
  shows "fetchResponseData E requestData' id' action apiBase' w' = (Inr r, w')"
proof -
  have "cache w' = cacheResponseData E (cacheKey_of action id') r (cache w)"
    using fetch_Inr_cases [OF first] miss by auto
  then have "checkCache E (cacheKey_of action id') (Indexer requestData') (cache w') = Some r"
    using law by simp
  then show ?thesis by (simp add: fetch_hit)
qed

lemma demo_fetch_42_fst:
  "fst (fetchResponseData demo_env (demo_request ''redacted'') 42 ''torrent''
          ''https://red.example/ajax.php'' (demo_world 1)) = Inr demo_torrent"
  by (simp add: model_defs demo_defs fmt_d_evals demo_torrent_def)

lemma demo_fetch_42_calls:
  "http_calls (snd (fetchResponseData demo_env (demo_request ''redacted'') 42 ''torrent''
          ''https://red.example/ajax.php'' (demo_world 1))) =
     [\<lparr>Method = ''GET'', URL = ''https://red.example/ajax.php?action=torrent&id=42'',
        Authorization = ''secret''\<rparr>]"
  by (simp add: model_defs demo_defs fmt_d_evals demo_torrent_def)

lemma demo_store_law:
  "\<forall>v c. checkCache demo_env k i (cacheResponseData demo_env k v c) = Some v"
  by (simp add: demo_defs)

text \<open>
  C1. Idempotence of fetch. Let the store return, on a lookup under the fetch's key and
  indexer, the envelope that was last put under that key (an entry created by a fetch is
  read by the later ones). If a call of \<open>fetchResponseData\<close> succeeds with envelope \<open>r\<close>,
  leaving the state \<open>w'\<close>, then a second call with the same indexer, action and id
  returns \<open>r\<close> and leaves \<open>w'\<close> as it is: no HTTP call is added, no credential is
  looked up, no limiter is queried and nothing is logged.
\<close>

theorem fetch_idempotent:
  assumes law: "\<forall>v c. checkCache E (cacheKey_of action id') (Indexer requestData)
                         (cacheResponseData E (cacheKey_of action id') v c) = Some v"
    and first: "fetchResponseData E requestData id' action apiBase w = (Inr r, w')"
    and same: "Indexer requestData' = Indexer requestData"
  shows "fetchResponseData E requestData' id' action apiBase' w' = (Inr r, w')"
proof (cases "checkCache E (cacheKey_of action id') (Indexer requestData) (cache w)")
  case None
  from law same have "\<forall>v c. checkCache E (cacheKey_of action id') (Indexer requestData')
                         (cacheResponseData E (cacheKey_of action id') v c) = Some v"
    by simp
  from fetch_then_hit [OF this None first] show ?thesis .
next
  case (Some c)
  with fetch_Inr_cases [OF first] have "c = r" "w' = w" by auto
  with Some same show ?thesis by (simp add: fetch_hit)
qed

theorem fetch_idempotent_witness:
  "(\<forall>v c. checkCache demo_env (cacheKey_of ''torrent'' 42) (Indexer (demo_request ''redacted''))
             (cacheResponseData demo_env (cacheKey_of ''torrent'' 42) v c) = Some v) \<and>
   fst (fetchResponseData demo_env (demo_request ''redacted'') 42 ''torrent''
          ''https://red.example/ajax.php'' (demo_world 1)) = Inr demo_torrent \<and>
   length (http_calls (snd (fetchResponseData demo_env (demo_request ''redacted'') 42 ''torrent''
          ''https://red.example/ajax.php'' (demo_world 1)))) = 1 \<and>
   fetchResponseData demo_env (demo_request ''redacted'') 42 ''torrent''
       ''https://red.example/ajax.php''
       (snd (fetchResponseData demo_env (demo_request ''redacted'') 42 ''torrent''
               ''https://red.example/ajax.php'' (demo_world 1))) =
     (Inr demo_torrent,
      snd (fetchResponseData demo_env (demo_request ''redacted'') 42 ''torrent''
               ''https://red.example/ajax.php'' (demo_world 1)))"
proof -
  let ?first = "fetchResponseData demo_env (demo_request ''redacted'') 42 ''torrent''
                  ''https://red.example/ajax.php'' (demo_world 1)"
  have law: "\<forall>v c. checkCache demo_env (cacheKey_of ''torrent'' 42)
                 (Indexer (demo_request ''redacted''))
                 (cacheResponseData demo_env (cacheKey_of ''torrent'' 42) v c) = Some v"
    by (rule demo_store_law)
  have first: "?first = (Inr demo_torrent, snd ?first)"
    using demo_fetch_42_fst by (simp add: prod_eq_iff)
  show ?thesis
    using law demo_fetch_42_fst demo_fetch_42_calls
      fetch_idempotent [OF law first refl, of "''https://red.example/ajax.php''"]
    by simp
qed

lemma initiateAPIRequest_limiter_queries:
  "limiter_queries (snd (initiateAPIRequest E id' action apiKey apiBase indexer w)) \<le>
     Suc (limiter_queries w)"
proof (cases "getLimiter E indexer")
  case None
  then show ?thesis by (simp add: initiateAPIRequest_def)
next
  case (Some limiter)
  obtain res w1 where m: "makeRequest E (endpoint_of apiBase action id') apiKey limiter indexer
                            ResponseDataPtr w = (res, w1)"
    by (cases "makeRequest E (endpoint_of apiBase action id') apiKey limiter indexer
                 ResponseDataPtr w")
  have "limiter_queries w1 = Suc (limiter_queries w)"
    using makeRequest_limiter_queries [of E "endpoint_of apiBase action id'" apiKey limiter
            indexer ResponseDataPtr w] m by simp
  with Some m show ?thesis
    by (simp add: initiateAPIRequest_def emit_def Let_def split: sum.split option.split)
qed

text \<open>
  One fetch attempts each stage at most once: at most one credential lookup and at most
  one query of the limiter.
\<close>

lemma fetch_single_attempt:
  "key_lookups (snd (fetchResponseData E requestData id' action apiBase w)) \<le>
     Suc (key_lookups w) \<and>
   limiter_queries (snd (fetchResponseData E requestData id' action apiBase w)) \<le>
     Suc (limiter_queries w)"
proof (cases "checkCache E (cacheKey_of action id') (Indexer requestData) (cache w)")
  case (Some c)
  then show ?thesis by (simp add: fetch_hit)
next
  case None
  show ?thesis
  proof (cases "getAPIKey E requestData")
    case (Inl err)
    with None show ?thesis by (simp add: fetch_miss)
  next
    case (Inr apiKey)
    let ?w1 = "w\<lparr>key_lookups := Suc (key_lookups w)\<rparr>"
    obtain res w2 where i: "initiateAPIRequest E id' action apiKey apiBase (Indexer requestData)
                              ?w1 = (res, w2)"
      by (cases "initiateAPIRequest E id' action apiKey apiBase (Indexer requestData) ?w1")
    have k: "key_lookups w2 = Suc (key_lookups w)"
      using initiateAPIRequest_key_lookups [of E id' action apiKey apiBase "Indexer requestData"
              ?w1] i by simp
    have l: "limiter_queries w2 \<le> Suc (limiter_queries w)"
      using initiateAPIRequest_limiter_queries [of E id' action apiKey apiBase
              "Indexer requestData" ?w1] i by simp
    from None Inr i k l show ?thesis
      by (cases res) (simp_all add: fetch_miss)
  qed
qed

lemma fetch_Inl_cache:
  assumes "fetchResponseData E requestData id' action apiBase w = (Inl e, w')"
  shows "cache w' = cache w"
proof -
  from fetch_Inl_cases [OF assms] consider
    (key) "w' = w\<lparr>key_lookups := Suc (key_lookups w)\<rparr>"
    | (init) apiKey inner w2 where
        "initiateAPIRequest E id' action apiKey apiBase (Indexer requestData)
           (w\<lparr>key_lookups := Suc (key_lookups w)\<rparr>) = (Inl inner, w2)"
        "w' = w2\<lparr>log_events := log_events w'\<rparr>"
    by blast
  then show ?thesis
  proof cases
    case key
    then show ?thesis by simp
  next
    case init
    have "cache w2 = cache w"
      using initiateAPIRequest_cache [of E id' action apiKey apiBase "Indexer requestData"
             "w\<lparr>key_lookups := Suc (key_lookups w)\<rparr>"] init(1) by simp
    moreover have "cache w' = cache w2" by (subst init(2)) simp
    ultimately show ?thesis by simp
  qed
qed

lemma demo_fetch_0_isl:
  "isl (fst (fetchResponseData demo_env (demo_request ''redacted'') 0 ''torrent''
          ''https://red.example/ajax.php'' (demo_world 2)))"
  by (simp add: model_defs demo_defs fmt_d_evals demo_failure_def)

lemma demo_fetch_0_limiters:
  "limiters (snd (fetchResponseData demo_env (demo_request ''redacted'') 0 ''torrent''
          ''https://red.example/ajax.php'' (demo_world 2))) 0 = 1"
  by (simp add: model_defs demo_defs fmt_d_evals demo_failure_def)

lemma demo_fetch_0_calls:
  "http_calls (snd (fetchResponseData demo_env (demo_request ''redacted'') 0 ''torrent''
          ''https://red.example/ajax.php'' (demo_world 2))) =
     [\<lparr>Method = ''GET'', URL = ''https://red.example/ajax.php?action=torrent&id=0'',
        Authorization = ''secret''\<rparr>]"
  by (simp add: model_defs demo_defs fmt_d_evals demo_failure_def)

text \<open>
  C2, as the code has it. Failures are not cached. If \<open>fetchResponseData\<close> returns an
  error, whichever step it comes from, the cache is what it was before the call and the
  lookup of the key still misses. The next identical fetch is therefore not answered from
  the cache: it goes through the live path again, starting with a credential lookup, and
  whenever the credential resolves, the indexer has a limiter that admits the call and
  the request can be built, it sends a request to the endpoint. The cache changes only
  in a call that returns an envelope.
\<close>

theorem fetch_error_leaves_cache:
  assumes "fetchResponseData E requestData id' action apiBase w = (Inl e, w')"
  shows "cache w' = cache w \<and>
         checkCache E (cacheKey_of action id') (Indexer requestData) (cache w') = None \<and>
         key_lookups (snd (fetchResponseData E requestData id' action apiBase w')) =
           Suc (key_lookups w') \<and>
         (\<forall>apiKey limiter.
            getAPIKey E requestData = Inr apiKey \<and>
            getLimiter E (Indexer requestData) = Some limiter \<and>
            fst (limiter_Allow E (limiters w' limiter)) \<and>
            http_NewRequest_err E (endpoint_of apiBase action id') = None \<longrightarrow>
            (\<exists>rest. http_calls (snd (fetchResponseData E requestData id' action apiBase w')) =
               http_calls w' @
               \<lparr>Method = ''GET'', URL = endpoint_of apiBase action id',
                  Authorization = apiKey\<rparr> # rest))"
proof -
  have none: "checkCache E (cacheKey_of action id') (Indexer requestData) (cache w) = None"
    using fetch_Inl_cases [OF assms] by simp
  have c: "cache w' = cache w"
    by (rule fetch_Inl_cache [OF assms])
  have none': "checkCache E (cacheKey_of action id') (Indexer requestData) (cache w') = None"
    using none c by simp
  have k: "key_lookups (snd (fetchResponseData E requestData id' action apiBase w')) =
             Suc (key_lookups w')"
  proof (cases "getAPIKey E requestData")
    case (Inl err)
    then show ?thesis by (simp add: fetch_miss [OF none'])
  next
    case (Inr apiKey)
    obtain res w2 where i: "initiateAPIRequest E id' action apiKey apiBase (Indexer requestData)
               (w'\<lparr>key_lookups := Suc (key_lookups w')\<rparr>) = (res, w2)"
      by (cases "initiateAPIRequest E id' action apiKey apiBase (Indexer requestData)
               (w'\<lparr>key_lookups := Suc (key_lookups w')\<rparr>)")
    have "key_lookups w2 = Suc (key_lookups w')"
      using initiateAPIRequest_key_lookups [of E id' action apiKey apiBase "Indexer requestData"
               "w'\<lparr>key_lookups := Suc (key_lookups w')\<rparr>"] i by simp
    with Inr i show ?thesis by (cases res) (simp_all add: fetch_miss [OF none'])
  qed
  have live: "\<exists>rest. http_calls (snd (fetchResponseData E requestData id' action apiBase w')) =
               http_calls w' @
               \<lparr>Method = ''GET'', URL = endpoint_of apiBase action id',
                  Authorization = apiKey\<rparr> # rest"
    if "getAPIKey E requestData = Inr apiKey" "getLimiter E (Indexer requestData) = Some limiter"
       "fst (limiter_Allow E (limiters w' limiter))"
       "http_NewRequest_err E (endpoint_of apiBase action id') = None" for apiKey limiter
    using fetch_miss_live_call [OF none' that] .
  from c none' k live show ?thesis by blast
qed

text \<open>
  C2, as stated, fails: after a fetch that failed to resolve the credential, the
  identical fetch fails in the same way and sends no request at all.
\<close>

theorem fetch_retry_without_live_call:
  "fst (fetchResponseData demo_env \<lparr>Indexer = ''redacted'', CredentialRef = []\<rparr> 42 ''torrent''
          ''https://red.example/ajax.php'' (demo_world 1)) =
     Inl (GoError ''no API key configured'' None) \<and>
   fst (fetchResponseData demo_env \<lparr>Indexer = ''redacted'', CredentialRef = []\<rparr> 42 ''torrent''
          ''https://red.example/ajax.php''
          (snd (fetchResponseData demo_env \<lparr>Indexer = ''redacted'', CredentialRef = []\<rparr> 42
                  ''torrent'' ''https://red.example/ajax.php'' (demo_world 1)))) =
     Inl (GoError ''no API key configured'' None) \<and>
   http_calls
     (snd (fetchResponseData demo_env \<lparr>Indexer = ''redacted'', CredentialRef = []\<rparr> 42 ''torrent''
          ''https://red.example/ajax.php''
          (snd (fetchResponseData demo_env \<lparr>Indexer = ''redacted'', CredentialRef = []\<rparr> 42
                  ''torrent'' ''https://red.example/ajax.php'' (demo_world 1))))) = []"
  by (simp add: model_defs demo_defs fmt_d_evals)

theorem fetch_error_leaves_cache_witness:
  "isl (fst (fetchResponseData demo_env (demo_request ''redacted'') 0 ''torrent''
          ''https://red.example/ajax.php'' (demo_world 2))) \<and>
   cache (snd (fetchResponseData demo_env (demo_request ''redacted'') 0 ''torrent''
          ''https://red.example/ajax.php'' (demo_world 2))) = Map.empty \<and>
   getAPIKey demo_env (demo_request ''redacted'') = Inr ''secret'' \<and>
   getLimiter demo_env (Indexer (demo_request ''redacted'')) = Some 0 \<and>
   (\<exists>rest. http_calls (snd (fetchResponseData demo_env (demo_request ''redacted'') 0 ''torrent''
       ''https://red.example/ajax.php''
       (snd (fetchResponseData demo_env (demo_request ''redacted'') 0 ''torrent''
          ''https://red.example/ajax.php'' (demo_world 2))))) =
     [\<lparr>Method = ''GET'', URL = ''https://red.example/ajax.php?action=torrent&id=0'',
        Authorization = ''secret''\<rparr>] @
     \<lparr>Method = ''GET'', URL = ''https://red.example/ajax.php?action=torrent&id=0'',
        Authorization = ''secret''\<rparr> # rest)"
proof -
  let ?first = "fetchResponseData demo_env (demo_request ''redacted'') 0 ''torrent''
                  ''https://red.example/ajax.php'' (demo_world 2)"
  obtain e where first: "?first = (Inl e, snd ?first)"
    using demo_fetch_0_isl by (cases ?first; cases "fst ?first") auto
  have key: "getAPIKey demo_env (demo_request ''redacted'') = Inr ''secret''"
    by (simp add: demo_defs)
  have lim: "getLimiter demo_env (Indexer (demo_request ''redacted'')) = Some 0"
    by (simp add: demo_defs)
  have allow: "fst (limiter_Allow demo_env (limiters (snd ?first) 0))"
    using demo_fetch_0_limiters by (simp add: demo_env_def demo_Allow_def)
  have req: "http_NewRequest_err demo_env (endpoint_of ''https://red.example/ajax.php'' ''torrent'' 0) = None"
    by (simp add: demo_defs)
  have ep: "endpoint_of ''https://red.example/ajax.php'' ''torrent'' 0 =
              ''https://red.example/ajax.php?action=torrent&id=0''"
    by (simp add: endpoint_of_def fmt_d_evals)
  have c0: "cache (demo_world 2) = Map.empty"
    by (simp add: demo_defs)
  show ?thesis
    using fetch_error_leaves_cache [OF first] key lim allow req ep c0
      demo_fetch_0_isl demo_fetch_0_calls
    by simp
qed

section \<open>Error context\<close>

lemma fetch_credential_error:
  assumes "checkCache E (cacheKey_of action id') (Indexer requestData) (cache w) = None"
    and "getAPIKey E requestData = Inl err"
  shows "fetchResponseData E requestData id' action apiBase w =
           (Inl err, w\<lparr>key_lookups := Suc (key_lookups w)\<rparr>)"
  using assms by (simp add: fetch_miss)

lemma fetch_executor_error:
  assumes "checkCache E (cacheKey_of action id') (Indexer requestData) (cache w) = None"
    and "getAPIKey E requestData = Inr apiKey"
    and "getLimiter E (Indexer requestData) = Some limiter"
    and "fst (makeRequest E (endpoint_of apiBase action id') apiKey limiter (Indexer requestData)
                ResponseDataPtr (w\<lparr>key_lookups := Suc (key_lookups w)\<rparr>)) = Inl cause"
  shows "fst (fetchResponseData E requestData id' action apiBase w) =
           Inl (GoError (''error fetching '' @ action @ '' data for ID '' @ fmt_d id' @ '': '' @
                  ''initiateAPIRequest failed for endpoint '' @ endpoint_of apiBase action id' @
                  '': '' @ message cause)
                 (Some (GoError (''initiateAPIRequest failed for endpoint '' @
                          endpoint_of apiBase action id' @ '': '' @ message cause) (Some cause))))"
proof -
  let ?w1 = "w\<lparr>key_lookups := Suc (key_lookups w)\<rparr>"
  obtain w1' where m: "makeRequest E (endpoint_of apiBase action id') apiKey limiter
       (Indexer requestData) ResponseDataPtr ?w1 = (Inl cause, w1')"
    using assms(4)
    by (cases "makeRequest E (endpoint_of apiBase action id') apiKey limiter
       (Indexer requestData) ResponseDataPtr ?w1") simp
  have "fst (initiateAPIRequest E id' action apiKey apiBase (Indexer requestData) ?w1) =
        Inl (GoError (''initiateAPIRequest failed for endpoint '' @
                          endpoint_of apiBase action id' @ '': '' @ message cause) (Some cause))"
    using assms(3) m by (simp add: initiateAPIRequest_def Let_def errorf_w_def)
  then show ?thesis
    using assms(1,2)
    by (cases "initiateAPIRequest E id' action apiKey apiBase (Indexer requestData) ?w1")
       (simp add: fetch_miss)
qed

lemma fetch_error_shape:
  assumes "fetchResponseData E requestData id' action apiBase w = (Inl e, w')"
  shows "(getAPIKey E requestData = Inl e \<and> log_events w' = log_events w \<or>
          (\<exists>inner. e = GoError (''error fetching '' @ action @ '' data for ID '' @ fmt_d id' @
                                 '': '' @ message inner) (Some inner) \<and>
             (inner = GoError (''could not get rate limiter for indexer: '' @ Indexer requestData)
                        None \<or>
              (\<exists>cause apiKey limiter.
                 inner = GoError (''initiateAPIRequest failed for endpoint '' @
                           endpoint_of apiBase action id' @ '': '' @ message cause) (Some cause) \<and>
                 fst (makeRequest E (endpoint_of apiBase action id') apiKey limiter
                        (Indexer requestData) ResponseDataPtr
                        (w\<lparr>key_lookups := Suc (key_lookups w)\<rparr>)) = Inl cause))))"
proof -
  from fetch_Inl_cases [OF assms] consider
    (key) "getAPIKey E requestData = Inl e" "w' = w\<lparr>key_lookups := Suc (key_lookups w)\<rparr>"
    | (init) apiKey inner w2 where
        "initiateAPIRequest E id' action apiKey apiBase (Indexer requestData)
           (w\<lparr>key_lookups := Suc (key_lookups w)\<rparr>) = (Inl inner, w2)"
        "e = GoError (''error fetching '' @ action @ '' data for ID '' @ fmt_d id' @ '': ''
                               @ message inner) (Some inner)"
    by blast
  then show ?thesis
  proof cases
    case key
    then have "log_events w' = log_events w" by simp
    with key(1) show ?thesis by blast
  next
    case init
    from initiateAPIRequest_Inl [OF init(1)]
    have "inner = GoError (''could not get rate limiter for indexer: '' @ Indexer requestData) None \<or>
          (\<exists>cause apiKey limiter.
                 inner = GoError (''initiateAPIRequest failed for endpoint '' @
                           endpoint_of apiBase action id' @ '': '' @ message cause) (Some cause) \<and>
                 fst (makeRequest E (endpoint_of apiBase action id') apiKey limiter
                        (Indexer requestData) ResponseDataPtr
                        (w\<lparr>key_lookups := Suc (key_lookups w)\<rparr>)) = Inl cause)"
      by (metis fst_conv)
    with init(2) show ?thesis by blast
  qed
qed

lemma fetch_no_limiter_error:
  assumes "checkCache E (cacheKey_of action id') (Indexer requestData) (cache w) = None"
    and "getAPIKey E requestData = Inr apiKey"
    and "getLimiter E (Indexer requestData) = None"
  shows "fst (fetchResponseData E requestData id' action apiBase w) =
           Inl (GoError (''error fetching '' @ action @ '' data for ID '' @ fmt_d id' @ '': '' @
                  ''could not get rate limiter for indexer: '' @ Indexer requestData)
                 (Some (GoError (''could not get rate limiter for indexer: '' @
                                  Indexer requestData) None)))"
  using assms by (simp add: fetch_miss initiateAPIRequest_def errorf_def)

lemma demo_make_0_value:
  "fst (makeRequest demo_env (endpoint_of ''https://red.example/ajax.php'' ''torrent'' 0)
          ''secret'' 0 (Indexer (demo_request ''redacted'')) ResponseDataPtr
          ((demo_world 2)\<lparr>key_lookups := Suc (key_lookups (demo_world 2))\<rparr>)) =
   Inl (GoError ''API error from redacted: bad id parameter'' None)"
  by (simp add: model_defs demo_defs fmt_d_evals demo_failure_def)

text \<open>
  C5, as the code has it. An error returned by \<open>fetchResponseData\<close> is either the
  credential provider's error, returned as it is (no id/action context, nothing logged),
  or an error of \<open>initiateAPIRequest\<close> wrapped as
  \<open>error fetching <action> data for ID <id>: ...\<close>; the wrapped error is the
  limiter-unavailable error of the orchestrator or an error of \<open>makeRequest\<close> wrapped as
  \<open>initiateAPIRequest failed for endpoint <endpoint>: ...\<close>. No error is dropped: on
  a cache miss, a failing credential lookup, a missing limiter and a failing
  \<open>makeRequest\<close> each make the fetch fail with the error in the form just described.
  Nothing is retried: one fetch looks the credential up at most once and asks the
  limiter, which every run of \<open>makeRequest\<close> does first, at most once.
\<close>

theorem fetch_error_context:
  "(fetchResponseData E requestData id' action apiBase w = (Inl e, w') \<longrightarrow>
      (getAPIKey E requestData = Inl e \<and> log_events w' = log_events w \<or>
       (\<exists>inner. e = GoError (''error fetching '' @ action @ '' data for ID '' @ fmt_d id' @
                              '': '' @ message inner) (Some inner) \<and>
          (inner = GoError (''could not get rate limiter for indexer: '' @ Indexer requestData)
                     None \<or>
           (\<exists>cause apiKey limiter.
              inner = GoError (''initiateAPIRequest failed for endpoint '' @
                        endpoint_of apiBase action id' @ '': '' @ message cause) (Some cause) \<and>
              fst (makeRequest E (endpoint_of apiBase action id') apiKey limiter
                     (Indexer requestData) ResponseDataPtr
                     (w\<lparr>key_lookups := Suc (key_lookups w)\<rparr>)) = Inl cause))))) \<and>
   (checkCache E (cacheKey_of action id') (Indexer requestData) (cache w) = None \<and>
    getAPIKey E requestData = Inl credErr \<longrightarrow>
      fetchResponseData E requestData id' action apiBase w =
        (Inl credErr, w\<lparr>key_lookups := Suc (key_lookups w)\<rparr>)) \<and>
   (checkCache E (cacheKey_of action id') (Indexer requestData) (cache w) = None \<and>
    getAPIKey E requestData = Inr key \<and> getLimiter E (Indexer requestData) = None \<longrightarrow>
      fst (fetchResponseData E requestData id' action apiBase w) =
        Inl (GoError (''error fetching '' @ action @ '' data for ID '' @ fmt_d id' @ '': '' @
               ''could not get rate limiter for indexer: '' @ Indexer requestData)
              (Some (GoError (''could not get rate limiter for indexer: '' @
                               Indexer requestData) None)))) \<and>
   (checkCache E (cacheKey_of action id') (Indexer requestData) (cache w) = None \<and>
    getAPIKey E requestData = Inr key \<and> getLimiter E (Indexer requestData) = Some lim \<and>
    fst (makeRequest E (endpoint_of apiBase action id') key lim (Indexer requestData)
           ResponseDataPtr (w\<lparr>key_lookups := Suc (key_lookups w)\<rparr>)) = Inl execErr \<longrightarrow>
      fst (fetchResponseData E requestData id' action apiBase w) =
        Inl (GoError (''error fetching '' @ action @ '' data for ID '' @ fmt_d id' @ '': '' @
               ''initiateAPIRequest failed for endpoint '' @ endpoint_of apiBase action id' @
               '': '' @ message execErr)
              (Some (GoError (''initiateAPIRequest failed for endpoint '' @
                       endpoint_of apiBase action id' @ '': '' @ message execErr)
                      (Some execErr))))) \<and>
   key_lookups (snd (fetchResponseData E requestData id' action apiBase w)) \<le>
     Suc (key_lookups w) \<and>
   limiter_queries (snd (fetchResponseData E requestData id' action apiBase w)) \<le>
     Suc (limiter_queries w)"
proof (intro conjI impI)
  assume "fetchResponseData E requestData id' action apiBase w = (Inl e, w')"
  from fetch_error_shape [OF this]
  show "getAPIKey E requestData = Inl e \<and> log_events w' = log_events w \<or>
       (\<exists>inner. e = GoError (''error fetching '' @ action @ '' data for ID '' @ fmt_d id' @
                              '': '' @ message inner) (Some inner) \<and>
          (inner = GoError (''could not get rate limiter for indexer: '' @ Indexer requestData)
                     None \<or>
           (\<exists>cause apiKey limiter.
              inner = GoError (''initiateAPIRequest failed for endpoint '' @
                        endpoint_of apiBase action id' @ '': '' @ message cause) (Some cause) \<and>
              fst (makeRequest E (endpoint_of apiBase action id') apiKey limiter
                     (Indexer requestData) ResponseDataPtr
                     (w\<lparr>key_lookups := Suc (key_lookups w)\<rparr>)) = Inl cause)))"
    by blast
next
  assume "checkCache E (cacheKey_of action id') (Indexer requestData) (cache w) = None \<and>
    getAPIKey E requestData = Inl credErr"
  then show "fetchResponseData E requestData id' action apiBase w =
        (Inl credErr, w\<lparr>key_lookups := Suc (key_lookups w)\<rparr>)"
    by (simp add: fetch_credential_error)
next
  assume "checkCache E (cacheKey_of action id') (Indexer requestData) (cache w) = None \<and>
    getAPIKey E requestData = Inr key \<and> getLimiter E (Indexer requestData) = None"
  then show "fst (fetchResponseData E requestData id' action apiBase w) =
        Inl (GoError (''error fetching '' @ action @ '' data for ID '' @ fmt_d id' @ '': '' @
               ''could not get rate limiter for indexer: '' @ Indexer requestData)
              (Some (GoError (''could not get rate limiter for indexer: '' @
                               Indexer requestData) None)))"
    using fetch_no_limiter_error [of E action id' requestData w key apiBase] by simp
next
  assume "checkCache E (cacheKey_of action id') (Indexer requestData) (cache w) = None \<and>
    getAPIKey E requestData = Inr key \<and> getLimiter E (Indexer requestData) = Some lim \<and>
    fst (makeRequest E (endpoint_of apiBase action id') key lim (Indexer requestData)
           ResponseDataPtr (w\<lparr>key_lookups := Suc (key_lookups w)\<rparr>)) = Inl execErr"
  then show "fst (fetchResponseData E requestData id' action apiBase w) =
        Inl (GoError (''error fetching '' @ action @ '' data for ID '' @ fmt_d id' @ '': '' @
               ''initiateAPIRequest failed for endpoint '' @ endpoint_of apiBase action id' @
               '': '' @ message execErr)
              (Some (GoError (''initiateAPIRequest failed for endpoint '' @
                       endpoint_of apiBase action id' @ '': '' @ message execErr)
                      (Some execErr))))"
    using fetch_executor_error [of E action id' requestData w key lim apiBase execErr] by simp
next
  show "key_lookups (snd (fetchResponseData E requestData id' action apiBase w)) \<le>
          Suc (key_lookups w)"
    using fetch_single_attempt [of E requestData id' action apiBase w] by simp
next
  show "limiter_queries (snd (fetchResponseData E requestData id' action apiBase w)) \<le>
          Suc (limiter_queries w)"
    using fetch_single_attempt [of E requestData id' action apiBase w] by simp
qed

text \<open>
  C5, as stated, fails: with no credential configured, the error \<open>fetchResponseData\<close>
  returns for action \<open>torrent\<close> and id 42 is the provider's own error, not that error
  wrapped with the id/action context, and nothing is logged.
\<close>

theorem fetch_credential_error_unwrapped:
  "fst (fetchResponseData demo_env \<lparr>Indexer = ''redacted'', CredentialRef = []\<rparr> 42 ''torrent''
          ''https://red.example/ajax.php'' (demo_world 1)) =
     Inl (GoError ''no API key configured'' None) \<and>
   getAPIKey demo_env \<lparr>Indexer = ''redacted'', CredentialRef = []\<rparr> =
     Inl (GoError ''no API key configured'' None) \<and>
   fst (fetchResponseData demo_env \<lparr>Indexer = ''redacted'', CredentialRef = []\<rparr> 42 ''torrent''
          ''https://red.example/ajax.php'' (demo_world 1)) \<noteq>
     Inl (errorf_w ''error fetching torrent data for ID 42: ''
            (GoError ''no API key configured'' None)) \<and>
   log_events (snd (fetchResponseData demo_env \<lparr>Indexer = ''redacted'', CredentialRef = []\<rparr> 42
          ''torrent'' ''https://red.example/ajax.php'' (demo_world 1))) = []"
  by (simp add: model_defs demo_defs fmt_d_evals)

theorem fetch_error_context_witness:
  "fst (fetchResponseData demo_env (demo_request ''redacted'') 0 ''torrent''
          ''https://red.example/ajax.php'' (demo_world 2)) =
   Inl (GoError ''error fetching torrent data for ID 0: initiateAPIRequest failed for endpoint https://red.example/ajax.php?action=torrent&id=0: API error from redacted: bad id parameter''
         (Some (GoError ''initiateAPIRequest failed for endpoint https://red.example/ajax.php?action=torrent&id=0: API error from redacted: bad id parameter''
            (Some (GoError ''API error from redacted: bad id parameter'' None))))) \<and>
   key_lookups (snd (fetchResponseData demo_env (demo_request ''redacted'') 0 ''torrent''
          ''https://red.example/ajax.php'' (demo_world 2))) \<le> 1 \<and>
   limiter_queries (snd (fetchResponseData demo_env (demo_request ''redacted'') 0 ''torrent''
          ''https://red.example/ajax.php'' (demo_world 2))) \<le> 1 \<and>
   fetchResponseData demo_env \<lparr>Indexer = ''redacted'', CredentialRef = []\<rparr> 0 ''torrent''
          ''https://red.example/ajax.php'' (demo_world 2) =
     (Inl (GoError ''no API key configured'' None), (demo_world 2)\<lparr>key_lookups := 1\<rparr>) \<and>
   fst (fetchResponseData demo_env (demo_request ''what'') 0 ''torrent''
          ''https://red.example/ajax.php'' (demo_world 2)) =
     Inl (GoError ''error fetching torrent data for ID 0: could not get rate limiter for indexer: what''
           (Some (GoError ''could not get rate limiter for indexer: what'' None)))"
proof -
  let ?first = "fetchResponseData demo_env (demo_request ''redacted'') 0 ''torrent''
                  ''https://red.example/ajax.php'' (demo_world 2)"
  let ?e = "GoError ''error fetching torrent data for ID 0: initiateAPIRequest failed for endpoint https://red.example/ajax.php?action=torrent&id=0: API error from redacted: bad id parameter''
         (Some (GoError ''initiateAPIRequest failed for endpoint https://red.example/ajax.php?action=torrent&id=0: API error from redacted: bad id parameter''
            (Some (GoError ''API error from redacted: bad id parameter'' None))))"
  let ?nocred = "\<lparr>Indexer = ''redacted'', CredentialRef = []\<rparr>"
  have miss: "checkCache demo_env (cacheKey_of ''torrent'' 0) i (cache (demo_world 2)) = None" for i
    by (simp add: demo_defs)
  have key: "getAPIKey demo_env (demo_request i) = Inr ''secret''" for i
    by (simp add: demo_defs)
  have nokey: "getAPIKey demo_env ?nocred = Inl (GoError ''no API key configured'' None)"
    by (simp add: demo_defs errorf_def)
  have lim: "getLimiter demo_env (Indexer (demo_request ''redacted'')) = Some 0"
    by (simp add: demo_defs)
  have nolim: "getLimiter demo_env (Indexer (demo_request ''what'')) = None"
    by (simp add: demo_defs)
  have ix: "Indexer (demo_request ''what'') = ''what''"
    by (simp add: demo_defs)
  have c0: "limiter_queries (demo_world 2) = 0" "key_lookups (demo_world 2) = 0"
    by (simp_all add: demo_defs)
  have ep: "endpoint_of ''https://red.example/ajax.php'' ''torrent'' 0 =
              ''https://red.example/ajax.php?action=torrent&id=0''"
    by (simp add: endpoint_of_def fmt_d_evals)
  note exec = fetch_error_context [where E = demo_env and requestData = "demo_request ''redacted''"
      and id' = 0 and action = "''torrent''" and apiBase = "''https://red.example/ajax.php''"
      and w = "demo_world 2" and key = "''secret''" and lim = 0
      and execErr = "GoError ''API error from redacted: bad id parameter'' None"]
  have v: "fst ?first = Inl ?e"
    using exec miss key lim demo_make_0_value ep fmt_d_evals by simp
  then have first: "?first = (Inl ?e, snd ?first)"
    by (simp add: prod_eq_iff)
  have b: "key_lookups (snd ?first) \<le> 1" "limiter_queries (snd ?first) \<le> 1"
    using fetch_error_context [where E = demo_env and requestData = "demo_request ''redacted''"
      and id' = 0 and action = "''torrent''" and apiBase = "''https://red.example/ajax.php''"
      and w = "demo_world 2" and e = ?e and w' = "snd ?first"] first c0 by simp_all
  have cred: "fetchResponseData demo_env ?nocred 0 ''torrent''
          ''https://red.example/ajax.php'' (demo_world 2) =
     (Inl (GoError ''no API key configured'' None), (demo_world 2)\<lparr>key_lookups := 1\<rparr>)"
    using fetch_error_context [where E = demo_env and requestData = ?nocred
      and id' = 0 and action = "''torrent''" and apiBase = "''https://red.example/ajax.php''"
      and w = "demo_world 2" and credErr = "GoError ''no API key configured'' None"]
      miss nokey c0 by simp
  have nol: "fst (fetchResponseData demo_env (demo_request ''what'') 0 ''torrent''
          ''https://red.example/ajax.php'' (demo_world 2)) =
     Inl (GoError ''error fetching torrent data for ID 0: could not get rate limiter for indexer: what''
           (Some (GoError ''could not get rate limiter for indexer: what'' None)))"
    using fetch_error_context [where E = demo_env and requestData = "demo_request ''what''"
      and id' = 0 and action = "''torrent''" and apiBase = "''https://red.example/ajax.php''"
      and w = "demo_world 2" and key = "''secret''"]
      miss key nolim ix fmt_d_evals by simp
  from v b cred nol show ?thesis by simp
qed

section \<open>Unescaping of the release name\<close>

lemma initiateAPIRequest_log:
  assumes "initiateAPIRequest E id' action apiKey apiBase indexer w = (Inr r, w')"
  shows "log_events w' =
           log_events w @
           (case (if action = ''torrent'' then Torrent (Response r) else None) of
              None \<Rightarrow> []
            | Some torrent \<Rightarrow>
                [LogEvent DebugLevel None
                   (''['' @ indexer @ ''] Checking release: '' @
                    html_UnescapeString E (ReleaseName torrent) @ '' - (Uploader: '' @
                    Username torrent @ '') (TorrentID: '' @ fmt_d id' @ '')'')])"
proof -
  from assms obtain limiter where l: "getLimiter E indexer = Some limiter"
    by (cases "getLimiter E indexer") (auto simp: initiateAPIRequest_def)
  obtain res w1 where m: "makeRequest E (endpoint_of apiBase action id') apiKey limiter indexer
                            ResponseDataPtr w = (res, w1)"
    by (cases "makeRequest E (endpoint_of apiBase action id') apiKey limiter indexer
                 ResponseDataPtr w")
  with assms l have res: "res = Inr r"
    by (cases res) (auto simp: initiateAPIRequest_def Let_def split: option.splits)
  have "log_events w1 = log_events w"
    using makeRequest_Inr [of E "endpoint_of apiBase action id'" apiKey limiter indexer
            ResponseDataPtr w r w1] m res by simp
  with assms l m res show ?thesis
    by (cases "if action = ''torrent'' then Torrent (Response r) else None")
       (auto simp: initiateAPIRequest_def Let_def emit_def)
qed

lemma demo_initiate_42_fst:
  "fst (initiateAPIRequest demo_env 42 ''torrent'' ''secret'' ''https://red.example/ajax.php''
          ''redacted'' (demo_world 1)) = Inr demo_torrent"
  by (simp add: model_defs demo_defs fmt_d_evals demo_torrent_def)

lemma demo_Unescape_Foo: "demo_Unescape ''Foo &amp; Bar'' = ''Foo & Bar''"
  by simp

text \<open>
  C6. HTML-unescaping is display-only. When \<open>initiateAPIRequest\<close> succeeds, the envelope
  it returns is the one \<open>makeRequest\<close> left in the target, which is what the decoder
  produced from the body: the release name in it is the raw one. The state differs from
  the state after \<open>makeRequest\<close> in the log alone; for the action \<open>torrent\<close> and a payload
  with a torrent record the log gains one debug event, which carries the unescaped
  release name. Replacing the unescaping function by any other function changes neither
  the envelope returned by \<open>initiateAPIRequest\<close> nor the envelope returned and the cache
  left by \<open>fetchResponseData\<close>.
\<close>

theorem initiateAPIRequest_unescape_display_only:
  assumes "initiateAPIRequest E id' action apiKey apiBase indexer w = (Inr r, w')"
  shows "(\<exists>limiter w1.
            getLimiter E indexer = Some limiter \<and>
            makeRequest E (endpoint_of apiBase action id') apiKey limiter indexer
              ResponseDataPtr w = (Inr r, w1) \<and>
            w' = w1\<lparr>log_events := log_events w'\<rparr>) \<and>
         (\<exists>respBody. json_Unmarshal E respBody = Inr r) \<and>
         (\<forall>f. fst (initiateAPIRequest (E\<lparr>html_UnescapeString := f\<rparr>) id' action apiKey apiBase
                     indexer w) = Inr r) \<and>
         (\<forall>torrent. action = ''torrent'' \<and> Torrent (Response r) = Some torrent \<longrightarrow>
            log_events w' =
              log_events w @
              [LogEvent DebugLevel None
                 (''['' @ indexer @ ''] Checking release: '' @
                  html_UnescapeString E (ReleaseName torrent) @ '' - (Uploader: '' @
                  Username torrent @ '') (TorrentID: '' @ fmt_d id' @ '')'')]) \<and>
         (\<forall>f requestData base v.
            fst (fetchResponseData (E\<lparr>html_UnescapeString := f\<rparr>) requestData id' action base v) =
              fst (fetchResponseData E requestData id' action base v) \<and>
            cache (snd (fetchResponseData (E\<lparr>html_UnescapeString := f\<rparr>) requestData id' action
                          base v)) =
              cache (snd (fetchResponseData E requestData id' action base v)))"
proof -
  from initiateAPIRequest_Inr [OF assms] obtain limiter w1 where
    l: "getLimiter E indexer = Some limiter" and
    m: "makeRequest E (endpoint_of apiBase action id') apiKey limiter indexer
              ResponseDataPtr w = (Inr r, w1)" and
    w: "w' = w1\<lparr>log_events := log_events w'\<rparr>"
    by blast
  have dec: "\<exists>respBody. json_Unmarshal E respBody = Inr r"
    using makeRequest_Inr [OF m] by blast
  have ind: "fst (initiateAPIRequest (E\<lparr>html_UnescapeString := f\<rparr>) id' action apiKey apiBase
                     indexer w) = Inr r" for f
    using initiateAPIRequest_unescape [where E = E and f = f and id' = id' and action = action
        and apiKey = apiKey and apiBase = apiBase and indexer = indexer and w = w] assms
    by simp
  have lg: "log_events w' =
              log_events w @
              [LogEvent DebugLevel None
                 (''['' @ indexer @ ''] Checking release: '' @
                  html_UnescapeString E (ReleaseName torrent) @ '' - (Uploader: '' @
                  Username torrent @ '') (TorrentID: '' @ fmt_d id' @ '')'')]"
    if "action = ''torrent'' \<and> Torrent (Response r) = Some torrent" for torrent
    using initiateAPIRequest_log [OF assms] that by simp
  from l m w dec ind lg fetchResponseData_unescape show ?thesis by blast
qed

theorem initiateAPIRequest_unescape_display_only_witness:
  "fst (initiateAPIRequest demo_env 42 ''torrent'' ''secret'' ''https://red.example/ajax.php''
          ''redacted'' (demo_world 1)) = Inr demo_torrent \<and>
   Torrent (Response demo_torrent) =
     Some \<lparr>ReleaseName = ''Foo &amp; Bar'', Username = ''alice''\<rparr> \<and>
   log_events (snd (initiateAPIRequest demo_env 42 ''torrent'' ''secret''
          ''https://red.example/ajax.php'' ''redacted'' (demo_world 1))) =
     [LogEvent DebugLevel None
        ''[redacted] Checking release: Foo & Bar - (Uploader: alice) (TorrentID: 42)''] \<and>
   fst (initiateAPIRequest (demo_env\<lparr>html_UnescapeString := (\<lambda>s. s)\<rparr>) 42 ''torrent'' ''secret''
          ''https://red.example/ajax.php'' ''redacted'' (demo_world 1)) = Inr demo_torrent \<and>
   cache (snd (fetchResponseData (demo_env\<lparr>html_UnescapeString := (\<lambda>s. s)\<rparr>)
                 (demo_request ''redacted'') 42 ''torrent'' ''https://red.example/ajax.php''
                 (demo_world 1))) =
     cache (snd (fetchResponseData demo_env (demo_request ''redacted'') 42 ''torrent''
                   ''https://red.example/ajax.php'' (demo_world 1)))"
proof -
  let ?call = "initiateAPIRequest demo_env 42 ''torrent'' ''secret''
                 ''https://red.example/ajax.php'' ''redacted'' (demo_world 1)"
  have first: "?call = (Inr demo_torrent, snd ?call)"
    using demo_initiate_42_fst by (simp add: prod_eq_iff)
  have t: "Torrent (Response demo_torrent) =
             Some \<lparr>ReleaseName = ''Foo &amp; Bar'', Username = ''alice''\<rparr>"
    by (simp add: demo_torrent_def)
  have l0: "log_events (demo_world 1) = []"
    by (simp add: demo_defs)
  have u: "html_UnescapeString demo_env ''Foo &amp; Bar'' = ''Foo & Bar''"
    by (simp add: demo_env_def)
  show ?thesis
    using initiateAPIRequest_unescape_display_only [OF first] demo_initiate_42_fst t l0 u
      fmt_d_evals
    by simp
qed

section \<open>Cached envelopes\<close>

lemma demo_fetch_42_cache_changed:
  "cache (snd (fetchResponseData demo_env (demo_request ''redacted'') 42 ''torrent''
          ''https://red.example/ajax.php'' (demo_world 1))) \<noteq> cache (demo_world 1)"
proof -
  have "cache (snd (fetchResponseData demo_env (demo_request ''redacted'') 42 ''torrent''
          ''https://red.example/ajax.php'' (demo_world 1))) ''torrentID 42'' = Some demo_torrent"
    by (simp add: model_defs demo_defs fmt_d_evals demo_torrent_def)
  moreover have "cache (demo_world 1) ''torrentID 42'' = None"
    by (simp add: demo_defs)
  ultimately show ?thesis by auto
qed

text \<open>
  C9. Success invariant. Whenever \<open>initiateAPIRequest\<close> returns without error, it returns
  an envelope (the pointer is the fresh \<^verbatim>\<open>&ResponseData{}\<close>, never \<^verbatim>\<open>nil\<close>) whose status is
  \<open>success\<close>. A call of \<open>fetchResponseData\<close> either leaves the cache as it is or puts,
  under the key of the call, the envelope it returns, whose status is \<open>success\<close>: every
  envelope \<open>fetchResponseData\<close> stores has the status \<open>success\<close>.
\<close>

theorem initiateAPIRequest_success_invariant:
  "(initiateAPIRequest E id' action apiKey apiBase indexer w = (Inr r, w1) \<longrightarrow>
      Status r = ''success'') \<and>
   (cache (snd (fetchResponseData E requestData id' action apiBase w)) = cache w \<or>
    (\<exists>r'. fst (fetchResponseData E requestData id' action apiBase w) = Inr r' \<and>
          Status r' = ''success'' \<and>
          cache (snd (fetchResponseData E requestData id' action apiBase w)) =
            cacheResponseData E (cacheKey_of action id') r' (cache w)))"
proof (intro conjI impI)
  assume "initiateAPIRequest E id' action apiKey apiBase indexer w = (Inr r, w1)"
  from initiateAPIRequest_Inr [OF this] obtain limiter w0 where
    "makeRequest E (endpoint_of apiBase action id') apiKey limiter indexer ResponseDataPtr w =
       (Inr r, w0)"
    by blast
  from makeRequest_Inr [OF this] show "Status r = ''success''" by simp
next
  let ?f = "fetchResponseData E requestData id' action apiBase w"
  show "cache (snd ?f) = cache w \<or>
    (\<exists>r'. fst ?f = Inr r' \<and> Status r' = ''success'' \<and>
          cache (snd ?f) = cacheResponseData E (cacheKey_of action id') r' (cache w))"
  proof (cases "fst ?f")
    case (Inl e)
    then have "?f = (Inl e, snd ?f)" by (simp add: prod_eq_iff)
    from fetch_Inl_cache [OF this] show ?thesis by simp
  next
    case (Inr r')
    then have f: "?f = (Inr r', snd ?f)" by (simp add: prod_eq_iff)
    from fetch_Inr_cases [OF f] show ?thesis
    proof
      assume "checkCache E (cacheKey_of action id') (Indexer requestData) (cache w) = Some r' \<and>
              snd ?f = w"
      then show ?thesis by simp
    next
      assume "checkCache E (cacheKey_of action id') (Indexer requestData) (cache w) = None \<and>
          (\<exists>apiKey w2. getAPIKey E requestData = Inr apiKey \<and>
             initiateAPIRequest E id' action apiKey apiBase (Indexer requestData)
               (w\<lparr>key_lookups := Suc (key_lookups w)\<rparr>) = (Inr r', w2) \<and>
             snd ?f = w2\<lparr>cache := cacheResponseData E (cacheKey_of action id') r' (cache w)\<rparr>)"
      then obtain apiKey w2 where
        i: "initiateAPIRequest E id' action apiKey apiBase (Indexer requestData)
               (w\<lparr>key_lookups := Suc (key_lookups w)\<rparr>) = (Inr r', w2)" and
        s: "snd ?f = w2\<lparr>cache := cacheResponseData E (cacheKey_of action id') r' (cache w)\<rparr>"
        by blast
      from initiateAPIRequest_Inr [OF i] obtain limiter w0 where
        "makeRequest E (endpoint_of apiBase action id') apiKey limiter (Indexer requestData)
           ResponseDataPtr (w\<lparr>key_lookups := Suc (key_lookups w)\<rparr>) = (Inr r', w0)"
        by blast
      from makeRequest_Inr [OF this] have "Status r' = ''success''" by simp
      moreover have "cache (snd ?f) = cacheResponseData E (cacheKey_of action id') r' (cache w)"
        by (subst s) simp
      ultimately show ?thesis using Inr by blast
    qed
  qed
qed

theorem initiateAPIRequest_success_invariant_witness:
  "initiateAPIRequest demo_env 42 ''torrent'' ''secret'' ''https://red.example/ajax.php''
     ''redacted'' (demo_world 1) =
     (Inr demo_torrent,
      snd (initiateAPIRequest demo_env 42 ''torrent'' ''secret'' ''https://red.example/ajax.php''
             ''redacted'' (demo_world 1))) \<and>
   Status demo_torrent = ''success'' \<and>
   fst (fetchResponseData demo_env (demo_request ''redacted'') 42 ''torrent''
          ''https://red.example/ajax.php'' (demo_world 1)) = Inr demo_torrent \<and>
   cache (snd (fetchResponseData demo_env (demo_request ''redacted'') 42 ''torrent''
          ''https://red.example/ajax.php'' (demo_world 1))) =
     [''torrentID 42'' \<mapsto> demo_torrent]"
proof -
  let ?call = "initiateAPIRequest demo_env 42 ''torrent'' ''secret''
                 ''https://red.example/ajax.php'' ''redacted'' (demo_world 1)"
  let ?f = "fetchResponseData demo_env (demo_request ''redacted'') 42 ''torrent''
          ''https://red.example/ajax.php'' (demo_world 1)"
  have first: "?call = (Inr demo_torrent, snd ?call)"
    using demo_initiate_42_fst by (simp add: prod_eq_iff)
  have k: "cacheKey_of ''torrent'' 42 = ''torrentID 42''"
    by (simp add: cacheKey_of_def fmt_d_evals)
  have put: "cacheResponseData demo_env k v (cache (demo_world 1)) = [k \<mapsto> v]" for k v
    by (simp add: demo_defs)
  note inv = initiateAPIRequest_success_invariant [where E = demo_env and id' = 42
      and action = "''torrent''" and apiKey = "''secret''"
      and apiBase = "''https://red.example/ajax.php''" and indexer = "''redacted''"
      and w = "demo_world 1" and r = demo_torrent and ?w1.0 = "snd ?call"
      and requestData = "demo_request ''redacted''"]
  have s: "Status demo_torrent = ''success''"
    using inv first by blast
  have "cache (snd ?f) = [''torrentID 42'' \<mapsto> demo_torrent]"
    using inv demo_fetch_42_fst k put demo_fetch_42_cache_changed by auto
  with first s demo_fetch_42_fst show ?thesis by simp
qed

section \<open>Cache key and indexer\<close>

lemma demo_fetch_ops_42_fst:
  "fst (fetchResponseData demo_env (demo_request ''ops'') 42 ''torrent''
          ''https://ops.example/ajax.php'' (demo_world 1)) = Inr demo_torrent_ops"
  by (simp add: model_defs demo_defs fmt_d_evals demo_torrent_ops_def)

lemma demo_fetch_ops_42_calls:
  "http_calls (snd (fetchResponseData demo_env (demo_request ''ops'') 42 ''torrent''
          ''https://ops.example/ajax.php'' (demo_world 1))) =
     [\<lparr>Method = ''GET'', URL = ''https://ops.example/ajax.php?action=torrent&id=42'',
        Authorization = ''secret''\<rparr>]"
  by (simp add: model_defs demo_defs fmt_d_evals demo_torrent_ops_def)

text \<open>
  C7. The cache key is the action, the separator \<open>ID \<close> and the decimal id. The claim
  that entries are scoped by indexer does not hold of the code: the key carries no
  indexer and \<open>cacheResponseData\<close> is called with the key and the envelope only, so what a
  successful fetch leaves in the store is the same whichever indexer asked. Hence, for
  any store whose lookup under indexer A returns what was put under the key (which is
  what serving a repeated fetch under A from the cache needs), a fetch under A that
  follows a successful fetch of the same action and id under another indexer B returns
  B's envelope and makes no live call.
\<close>

theorem fetch_shared_across_indexers:
  assumes law: "\<forall>v c. checkCache E (cacheKey_of action id') (Indexer requestData')
                         (cacheResponseData E (cacheKey_of action id') v c) = Some v"
    and miss: "checkCache E (cacheKey_of action id') (Indexer requestData) (cache w) = None"
    and first: "fetchResponseData E requestData id' action apiBase w = (Inr r, w')"
    and other: "Indexer requestData' \<noteq> Indexer requestData"
  shows "cacheKey_of action id' = action @ ''ID '' @ fmt_d id' \<and> parse_d (fmt_d id') = id' \<and>
         cache w' = cacheResponseData E (cacheKey_of action id') r (cache w) \<and>
         fetchResponseData E requestData' id' action apiBase' w' = (Inr r, w')"
proof -
  have "cache w' = cacheResponseData E (cacheKey_of action id') r (cache w)"
    using fetch_Inr_cases [OF first] miss by auto
  with fetch_then_hit [OF law miss first, of apiBase'] show ?thesis
    by (simp add: cacheKey_of_def parse_d_fmt_d)
qed

theorem fetch_shared_across_indexers_witness:
  "Indexer (demo_request ''redacted'') \<noteq> Indexer (demo_request ''ops'') \<and>
   checkCache demo_env (cacheKey_of ''torrent'' 42) (Indexer (demo_request ''ops''))
     (cache (demo_world 1)) = None \<and>
   fst (fetchResponseData demo_env (demo_request ''ops'') 42 ''torrent''
          ''https://ops.example/ajax.php'' (demo_world 1)) = Inr demo_torrent_ops \<and>
   fst (fetchResponseData demo_env (demo_request ''redacted'') 42 ''torrent''
          ''https://red.example/ajax.php''
          (snd (fetchResponseData demo_env (demo_request ''ops'') 42 ''torrent''
                  ''https://ops.example/ajax.php'' (demo_world 1)))) = Inr demo_torrent_ops \<and>
   http_calls (snd (fetchResponseData demo_env (demo_request ''redacted'') 42 ''torrent''
          ''https://red.example/ajax.php''
          (snd (fetchResponseData demo_env (demo_request ''ops'') 42 ''torrent''
                  ''https://ops.example/ajax.php'' (demo_world 1))))) =
     [\<lparr>Method = ''GET'', URL = ''https://ops.example/ajax.php?action=torrent&id=42'',
        Authorization = ''secret''\<rparr>] \<and>
   fst (fetchResponseData demo_env (demo_request ''redacted'') 42 ''torrent''
          ''https://red.example/ajax.php'' (demo_world 1)) = Inr demo_torrent \<and>
   demo_torrent \<noteq> demo_torrent_ops"
proof -
  let ?ops = "fetchResponseData demo_env (demo_request ''ops'') 42 ''torrent''
                ''https://ops.example/ajax.php'' (demo_world 1)"
  have other: "Indexer (demo_request ''redacted'') \<noteq> Indexer (demo_request ''ops'')"
    by (simp add: demo_defs)
  have law: "\<forall>v c. checkCache demo_env (cacheKey_of ''torrent'' 42)
                 (Indexer (demo_request ''redacted''))
                 (cacheResponseData demo_env (cacheKey_of ''torrent'' 42) v c) = Some v"
    by (rule demo_store_law)
  have miss: "checkCache demo_env (cacheKey_of ''torrent'' 42) (Indexer (demo_request ''ops''))
                (cache (demo_world 1)) = None"
    by (simp add: demo_defs)
  have first: "?ops = (Inr demo_torrent_ops, snd ?ops)"
    using demo_fetch_ops_42_fst by (simp add: prod_eq_iff)
  have ne: "demo_torrent \<noteq> demo_torrent_ops"
    by (simp add: demo_torrent_def demo_torrent_ops_def)
  show ?thesis
    using fetch_shared_across_indexers [OF law miss first other,
            of "''https://red.example/ajax.php''"]
      other miss demo_fetch_ops_42_fst demo_fetch_ops_42_calls demo_fetch_42_fst ne
    by simp
qed

end
